theory Spec2Isabelle
  imports Main "HOL-Library.AList"
begin

section \<open>Values, packets and flags\<close>

text \<open>
  Every JavaScript object that the code shares between owners (sockets, namespaces,
  clients, adapters, the \<open>Set\<close> of staged rooms and the flags object of a namespace) lives
  in a store indexed by its address, so that an assignment such as
  \<open>nsp.rooms = this.rooms\<close> copies an address and not a value. Private containers that
  are never aliased (\<open>Socket._rooms\<close>, \<open>Socket.flags\<close>, the \<open>Map\<close>s) are held by value.
  A \<open>Map\<close> is an association list in insertion order (\<open>AList.update\<close> is \<open>Map.set\<close>,
  \<open>AList.delete\<close> is \<open>Map.delete\<close>), a \<open>Set\<close> is a list without duplicates in
  insertion order.
\<close>

type_synonym ref = nat
type_synonym SocketId = string
type_synonym Room = string

datatype PacketType = CONNECT | DISCONNECT | EVENT | ACK | ERROR | BINARY_EVENT | BINARY_ACK

text \<open>
  Arguments of an emit. A function is known by its identity only, an \<open>Error\<close> object by
  its message.
\<close>

datatype jsval =
    VUndefined
  | VNull
  | VBool bool
  | VNum int
  | VStr string
  | VBuffer "nat list"
  | VFunction nat
  | VError string
  | VSocket ref
  | VArray "jsval list"

text \<open>\<open>typeof v === "function"\<close>\<close>

fun is_function :: "jsval \<Rightarrow> bool" where
  "is_function (VFunction f) = True"
| "is_function v = False"

text \<open>
  Modelled from the spec: \<open>hasBin\<close> of the package has-binary2, the "structural scan for
  binary payloads": a value has binary content when it is a buffer or an array holding one.
\<close>

fun hasBin :: "jsval \<Rightarrow> bool" where
  "hasBin (VBuffer b) = True"
| "hasBin (VArray xs) = list_ex hasBin xs"
| "hasBin v = False"

text \<open>\<open>Set.add\<close>\<close>

definition set_add :: "'a \<Rightarrow> 'a list \<Rightarrow> 'a list" where
  "set_add x xs = (if x \<in> set xs then xs else xs @ [x])"

text \<open>\<open>BroadcastFlags\<close> of socket.io-adapter: every field is optional; \<open>{}\<close> has none.\<close>

record BroadcastFlags =
  f_volatile :: "bool option"
  f_compress :: "bool option"
  f_local :: "bool option"
  f_broadcast :: "bool option"
  f_binary :: "bool option"

definition no_flags :: BroadcastFlags where
  "no_flags = \<lparr>f_volatile = None, f_compress = None, f_local = None,
     f_broadcast = None, f_binary = None\<rparr>"

text \<open>JavaScript truthiness of an optional boolean field.\<close>

fun truthy :: "bool option \<Rightarrow> bool" where
  "truthy (Some b) = b"
| "truthy None = False"

text \<open>The \<open>opts\<close> object read by \<open>Client.packet\<close>.\<close>

record PacketOpts =
  o_volatile :: "bool option"
  o_compress :: "bool option"
  o_preEncoded :: "bool option"

definition no_opts :: PacketOpts where
  "no_opts = \<lparr>o_volatile = None, o_compress = None, o_preEncoded = None\<rparr>"

definition opts_of_flags :: "BroadcastFlags \<Rightarrow> PacketOpts" where
  "opts_of_flags fl =
     \<lparr>o_volatile = f_volatile fl, o_compress = f_compress fl, o_preEncoded = None\<rparr>"

record Packet =
  p_type :: PacketType
  p_nsp :: "string option"
  p_id :: "nat option"
  p_data :: "jsval option"

text \<open>The second argument of \<open>Adapter.broadcast\<close>.\<close>

record BroadcastOptions =
  b_except :: "SocketId list option"
  b_rooms :: "Room list"
  b_flags :: BroadcastFlags

section \<open>Observable effects\<close>

text \<open>
  Calls that leave the code under study are recorded in a trace, in the order they are
  made: writes to the transport connection, calls on an adapter, and the invocation of
  the listeners of an \<open>EventEmitter\<close> (user code, which is not modelled further).

  The adapter (which holds its namespace) and the listeners can look at the socket they
  are called for. The entry of such a call records what they would find at that moment:
  the flags of the socket, its rooms in the adapter, and whether \<open>nsp.sockets\<close>,
  \<open>nsp.connected\<close>, \<open>client.sockets\<close> and \<open>client.nsps\<close> hold this socket.
\<close>

record View =
  v_connected :: bool
  v_disconnected :: bool
  v_rooms :: "Room list"
  v_nsp_sockets :: bool
  v_nsp_connected :: bool
  v_client_sockets :: bool
  v_client_nsps :: bool

datatype emitter = OnSocket ref | OnNamespace ref

datatype effect =
    Write string Packet "bool option" "bool option"
  | Close string
  | Broadcast ref Packet BroadcastOptions
  | AddAll ref SocketId "Room list" View
  | Del ref SocketId Room View
  | DelAll ref SocketId View
  | Emit emitter string "jsval list" "View option"

text \<open>
  An error thrown: an \<open>Error\<close> with its message, or the error that Node's \<open>emit\<close> makes
  of the first argument of an \<open>error\<close> event that has no listener, when that argument
  is not an \<open>Error\<close>.
\<close>

datatype error = Error string | UnhandledError jsval

section \<open>The transport connection\<close>

datatype ReadyState = rs_opening | rs_open | rs_closing | rs_closed

record Request =
  req_headers :: "(string \<times> string) list"
  req_url :: string
  req_query :: "(string \<times> string) list"
  req_encrypted :: bool

record Conn =
  conn_id :: string
  readyState :: ReadyState
  transport_writable :: bool
  remoteAddress :: string
  request :: Request

section \<open>Adapter\<close>

text \<open>
  Modelled from the spec: the in-memory adapter of the package socket.io-adapter, with
  \<open>rooms: Room \<rightarrow> set<SocketId>\<close> and the inverse \<open>sids: SocketId \<rightarrow> set<Room>\<close>.
\<close>

record Adapter =
  a_rooms :: "(Room \<times> SocketId list) list"
  a_sids :: "(SocketId \<times> Room list) list"

definition map_get_list :: "('k \<times> 'v list) list \<Rightarrow> 'k \<Rightarrow> 'v list" where
  "map_get_list m k = (case map_of m k of None \<Rightarrow> [] | Some vs \<Rightarrow> vs)"

text \<open>\<open>addAll(sid, rooms)\<close>: add sid to every room; create rooms on demand.\<close>

definition add_one :: "SocketId \<Rightarrow> Room \<Rightarrow> Adapter \<Rightarrow> Adapter" where
  "add_one sid room a =
     a\<lparr>a_sids := AList.update sid (set_add room (map_get_list (a_sids a) sid)) (a_sids a),
       a_rooms := AList.update room (set_add sid (map_get_list (a_rooms a) room)) (a_rooms a)\<rparr>"

definition addAll :: "SocketId \<Rightarrow> Room list \<Rightarrow> Adapter \<Rightarrow> Adapter" where
  "addAll sid rooms a = fold (add_one sid) rooms a"

text \<open>\<open>del(sid, room)\<close>: remove sid from room; delete room when empty.\<close>

definition del_room :: "SocketId \<Rightarrow> Room \<Rightarrow> (Room \<times> SocketId list) list
    \<Rightarrow> (Room \<times> SocketId list) list" where
  "del_room sid room rs =
     (case map_of rs room of
        None \<Rightarrow> rs
      | Some members \<Rightarrow>
          (if removeAll sid members = [] then AList.delete room rs
           else AList.update room (removeAll sid members) rs))"

definition del :: "SocketId \<Rightarrow> Room \<Rightarrow> Adapter \<Rightarrow> Adapter" where
  "del sid room a =
     a\<lparr>a_sids := (case map_of (a_sids a) sid of
                    None \<Rightarrow> a_sids a
                  | Some rs \<Rightarrow> AList.update sid (removeAll room rs) (a_sids a)),
       a_rooms := del_room sid room (a_rooms a)\<rparr>"

text \<open>\<open>delAll(sid)\<close>: remove sid from every room it belongs to.\<close>

definition delAll :: "SocketId \<Rightarrow> Adapter \<Rightarrow> Adapter" where
  "delAll sid a =
     a\<lparr>a_rooms := fold (del_room sid) (map_get_list (a_sids a) sid) (a_rooms a),
       a_sids := AList.delete sid (a_sids a)\<rparr>"

text \<open>\<open>socketRooms(sid)\<close>: the set of rooms containing sid, or empty.\<close>

definition socketRooms :: "Adapter \<Rightarrow> SocketId \<Rightarrow> Room list" where
  "socketRooms a sid = map_get_list (a_sids a) sid"


section \<open>Objects and the store\<close>

text \<open>
  The query of a CONNECT: the object parsed from the packet, or the array index that
  \<open>connectBuffer.forEach(this.connect, this)\<close> passes as second argument on a replay.
\<close>

datatype query = QObject "(string \<times> string) list" | QIndex nat

record Handshake =
  hs_headers :: "(string \<times> string) list"
  hs_time :: nat
  hs_address :: string
  hs_xdomain :: bool
  hs_secure :: bool
  hs_issued :: nat
  hs_url :: string
  hs_query :: "(string \<times> string) list"

record Socket =
  s_id :: SocketId
  s_handshake :: Handshake
  s_connected :: bool
  s_disconnected :: bool
  s_nsp :: ref
  s_client :: ref
  s_adapter :: ref
  s_acks :: "(nat \<times> jsval) list"
  s_flags :: BroadcastFlags
  s_rooms :: "Room list"
  s_listeners :: "(string \<times> nat) list"

text \<open>
  A connect-time middleware \<open>(socket, next)\<close> is modelled by the answer it passes to
  \<open>next\<close>: \<open>None\<close> for \<open>next()\<close>, \<open>Some msg\<close> for \<open>next(new Error(msg))\<close>. A listener is
  known by its identity.
\<close>

type_synonym middleware = "Socket \<Rightarrow> string option"

record Namespace =
  n_name :: string
  n_connected :: "(SocketId \<times> ref) list"
  n_adapter :: ref
  n_fns :: "middleware list"
  n_rooms :: ref
  n_flags :: ref
  n_ids :: nat
  n_sockets :: "(SocketId \<times> ref) list"
  n_listeners :: "(string \<times> nat) list"

text \<open>
  A \<open>ParentNamespace\<close> extends \<open>Namespace\<close> with \<open>children\<close>. Its \<open>initAdapter\<close> is empty, so
  it has no adapter, and no socket is ever added to it: the record keeps the inherited
  fields that its code reads or writes.
\<close>

record ParentNamespace =
  p_name :: string
  p_fns :: "middleware list"
  p_rooms :: ref
  p_flags :: ref
  p_listeners :: "(string \<times> nat) list"
  children :: "ref list"

record Client =
  c_conn :: Conn
  c_id :: string
  c_sockets :: "(SocketId \<times> ref) list"
  c_nsps :: "(string \<times> ref) list"
  connectBuffer :: "string list"
  c_listening :: bool

text \<open>
  A parent matcher \<open>(name, query, fn)\<close> is modelled by the pair \<open>(err, allow)\<close> it passes
  to \<open>fn\<close>. The keys of \<open>parentNsps\<close> are functions, compared by identity: a key is the
  identity of the function together with what it answers.
\<close>

type_synonym matcher = "string \<Rightarrow> query \<Rightarrow> bool \<times> bool"

record Engine =
  initialPacket :: "Packet option"

record Server =
  sockets :: ref
  nsps :: "(string \<times> ref) list"
  parentNsps :: "(nat \<times> matcher \<times> ref) list"
  eio :: "Engine option"

text \<open>
  A continuation handed to \<open>process.nextTick\<close> by \<open>Namespace.add\<close>: the namespace, the
  socket, the client and the error of the middleware run.
\<close>

datatype task =
  Added (task_nsp: ref) (task_socket: ref) (task_client: ref) (task_err: "string option")

record World =
  Sockets :: "ref \<Rightarrow> Socket"
  Namespaces :: "ref \<Rightarrow> Namespace"
  Parents :: "ref \<Rightarrow> ParentNamespace"
  Clients :: "ref \<Rightarrow> Client"
  Adapters :: "ref \<Rightarrow> Adapter"
  Sets :: "ref \<Rightarrow> Room list"
  FlagObjs :: "ref \<Rightarrow> BroadcastFlags"
  fresh :: ref
  server :: Server
  parent_count :: nat
  nextTick :: "task list"
  trace :: "effect list"
  clock :: nat

definition log :: "effect \<Rightarrow> World \<Rightarrow> World" where
  "log e w = w\<lparr>trace := trace w @ [e]\<rparr>"

text \<open>
  A call that may throw returns \<open>Inl\<close> the error thrown together with the store at the
  throw, or \<open>Inr\<close> the store after the call. What a caller sees of it: whether it threw, the
  store when the call ended, and the error together with the trace.
\<close>

type_synonym result = "(error \<times> World) + World"

fun threw :: "result \<Rightarrow> bool" where
  "threw (Inl e) = True"
| "threw (Inr w) = False"

fun final :: "result \<Rightarrow> World" where
  "final (Inl (e, w)) = w"
| "final (Inr w) = w"

fun outcome :: "result \<Rightarrow> error option \<times> effect list" where
  "outcome (Inl (e, w)) = (Some e, trace w)"
| "outcome (Inr w) = (None, trace w)"

text \<open>What the adapter and the listeners find of the socket at address \<open>this\<close>.\<close>

definition view :: "ref \<Rightarrow> World \<Rightarrow> View" where
  "view this w =
     (let s = Sockets w this;
          n = Namespaces w (s_nsp s);
          c = Clients w (s_client s)
      in \<lparr>v_connected = s_connected s,
          v_disconnected = s_disconnected s,
          v_rooms = socketRooms (Adapters w (s_adapter s)) (s_id s),
          v_nsp_sockets = (map_of (n_sockets n) (s_id s) = Some this),
          v_nsp_connected = (map_of (n_connected n) (s_id s) = Some this),
          v_client_sockets = (map_of (c_sockets c) (s_id s) = Some this),
          v_client_nsps = (map_of (c_nsps c) (n_name n) = Some this)\<rparr>)"

text \<open>
  The socket that the listeners of an event are called for: the emitting socket, or the
  socket that a namespace passes as first argument (\<open>connect\<close>, \<open>connection\<close>).
\<close>

fun seen :: "emitter \<Rightarrow> jsval list \<Rightarrow> World \<Rightarrow> View option" where
  "seen (OnSocket this) args w = Some (view this w)"
| "seen (OnNamespace nsp) (VSocket socket # args) w = Some (view socket w)"
| "seen (OnNamespace nsp) args w = None"

text \<open>
  Modelled from the spec: the event bus that \<open>Socket\<close> and \<open>Namespace\<close> inherit from Node's
  \<open>EventEmitter\<close>, "an explicit publish-subscribe registry per object with add and emit
  primitives". \<open>on\<close> adds a listener; \<open>emit\<close> calls the listeners of the event, and, as in
  Node, throws when the event is \<open>error\<close> and has no listener: the first argument when it
  is an \<open>Error\<close>, else an error made of the first argument (\<open>undefined\<close> when there is
  none). What the listeners do is outside the model.
\<close>

fun listeners :: "emitter \<Rightarrow> string \<Rightarrow> World \<Rightarrow> nat list" where
  "listeners (OnSocket this) ev w =
     map snd (filter (\<lambda>l. fst l = ev) (s_listeners (Sockets w this)))"
| "listeners (OnNamespace nsp) ev w =
     map snd (filter (\<lambda>l. fst l = ev) (n_listeners (Namespaces w nsp)))"

fun EventEmitter_on :: "emitter \<Rightarrow> string \<Rightarrow> nat \<Rightarrow> World \<Rightarrow> World" where
  "EventEmitter_on (OnSocket this) ev listener w =
     w\<lparr>Sockets := (Sockets w)
        (this := (Sockets w this)
           \<lparr>s_listeners := s_listeners (Sockets w this) @ [(ev, listener)]\<rparr>)\<rparr>"
| "EventEmitter_on (OnNamespace nsp) ev listener w =
     w\<lparr>Namespaces := (Namespaces w)
        (nsp := (Namespaces w nsp)
           \<lparr>n_listeners := n_listeners (Namespaces w nsp) @ [(ev, listener)]\<rparr>)\<rparr>"

definition EventEmitter_emit :: "emitter \<Rightarrow> string \<Rightarrow> jsval list \<Rightarrow> World \<Rightarrow> result" where
  "EventEmitter_emit target ev args w =
     (if ev = ''error'' \<and> listeners target ''error'' w = [] then
        Inl (case args of
               [] \<Rightarrow> UnhandledError VUndefined
             | VError msg # others \<Rightarrow> Error msg
             | er # others \<Rightarrow> UnhandledError er, w)
      else Inr (log (Emit target ev args (seen target args w)) w))"

section \<open>Client.packet and Socket.packet\<close>

text \<open>
  \<open>Client.packet\<close>: the frames of the packet (encoded here, or taken as they are when
  \<open>opts.preEncoded\<close>) are written to the connection when it is open, unless the packet is
  volatile and the transport is not writable. One \<open>Write\<close> stands for the writes of the
  frames of one packet.
\<close>

definition Client_packet :: "ref \<Rightarrow> Packet \<Rightarrow> PacketOpts \<Rightarrow> World \<Rightarrow> World" where
  "Client_packet this packet opts w =
     (let conn = c_conn (Clients w this) in
      if readyState conn = rs_open then
        (if truthy (o_volatile opts) \<and> \<not> transport_writable conn then w
         else log (Write (conn_id conn) packet (o_preEncoded opts) (o_compress opts)) w)
      else w)"

definition Socket_packet :: "ref \<Rightarrow> Packet \<Rightarrow> PacketOpts \<Rightarrow> World \<Rightarrow> World" where
  "Socket_packet this packet opts w =
     (let s = Sockets w this;
          packet' = packet\<lparr>p_nsp := Some (n_name (Namespaces w (s_nsp s)))\<rparr>;
          opts' = opts\<lparr>o_compress := Some (o_compress opts \<noteq> Some False)\<rparr>
      in Client_packet (s_client s) packet' opts' w)"

section \<open>Socket.emit\<close>

definition Socket_events :: "string list" where
  "Socket_events = [''error'', ''connect'', ''disconnect'', ''disconnecting'',
     ''newListener'', ''removeListener'']"

text \<open>The packet built from the arguments: \<open>BINARY_EVENT\<close> or \<open>EVENT\<close>, \<open>data: args\<close>.\<close>

definition event_packet :: "BroadcastFlags \<Rightarrow> jsval list \<Rightarrow> Packet" where
  "event_packet fl args =
     \<lparr>p_type = (if (case f_binary fl of Some b \<Rightarrow> b | None \<Rightarrow> hasBin (VArray args))
                then BINARY_EVENT else EVENT),
      p_nsp = None, p_id = None, p_data = Some (VArray args)\<rparr>"

text \<open>\<open>adapter.broadcast(packet, opts)\<close> on the adapter at address \<open>a\<close>.\<close>

definition Adapter_broadcast :: "ref \<Rightarrow> Packet \<Rightarrow> BroadcastOptions \<Rightarrow> World \<Rightarrow> World" where
  "Adapter_broadcast a packet opts w = log (Broadcast a packet opts) w"

text \<open>
  \<open>Socket.emit(ev, ...rest)\<close>. \<open>args.pop()\<close> removes the callback from the array that
  \<open>packet.data\<close> refers to.
\<close>

definition Socket_emit :: "ref \<Rightarrow> string \<Rightarrow> jsval list \<Rightarrow> World \<Rightarrow> result" where
  "Socket_emit this ev rest w =
     (if ev \<in> set Socket_events then EventEmitter_emit (OnSocket this) ev rest w
      else
        let s = Sockets w this;
            args = VStr ev # rest;
            packet = event_packet (s_flags s) args
        in case (if is_function (last args) then
                   (if s_rooms s \<noteq> [] \<or> truthy (f_broadcast (s_flags s)) then
                      Inl (Error ''Callbacks are not supported when broadcasting'', w)
                    else
                      let n = Namespaces w (s_nsp s) in
                      Inr (packet\<lparr>p_id := Some (n_ids n), p_data := Some (VArray (butlast args))\<rparr>,
                           w\<lparr>Sockets := (Sockets w)
                                (this := s\<lparr>s_acks := AList.update (n_ids n) (last args) (s_acks s)\<rparr>),
                              Namespaces := (Namespaces w)
                                (s_nsp s := n\<lparr>n_ids := n_ids n + 1\<rparr>)\<rparr>))
                 else Inr (packet, w)) of
             Inl e \<Rightarrow> Inl e
           | Inr (packet, w) \<Rightarrow>
               let s = Sockets w this;
                   rooms = s_rooms s;
                   flags = s_flags s;
                   w = w\<lparr>Sockets := (Sockets w)(this := s\<lparr>s_rooms := [], s_flags := no_flags\<rparr>)\<rparr>
               in if rooms \<noteq> [] \<or> truthy (f_broadcast flags) then
                    Inr (Adapter_broadcast (s_adapter s) packet
                           \<lparr>b_except = Some [s_id s], b_rooms = rooms, b_flags = flags\<rparr> w)
                  else Inr (Socket_packet this packet (opts_of_flags flags) w))"

text \<open>\<open>to(name)\<close>, \<open>in(name)\<close> and the flag setters stage the next emit.\<close>

definition Socket_to :: "ref \<Rightarrow> Room \<Rightarrow> World \<Rightarrow> World" where
  "Socket_to this name w =
     w\<lparr>Sockets := (Sockets w)
        (this := (Sockets w this)\<lparr>s_rooms := set_add name (s_rooms (Sockets w this))\<rparr>)\<rparr>"

definition Socket_in :: "ref \<Rightarrow> Room \<Rightarrow> World \<Rightarrow> World" where
  "Socket_in this name w =
     w\<lparr>Sockets := (Sockets w)
        (this := (Sockets w this)\<lparr>s_rooms := set_add name (s_rooms (Sockets w this))\<rparr>)\<rparr>"

definition Socket_broadcast :: "ref \<Rightarrow> World \<Rightarrow> World" where
  "Socket_broadcast this w =
     w\<lparr>Sockets := (Sockets w)
        (this := (Sockets w this)\<lparr>s_flags := (s_flags (Sockets w this))\<lparr>f_broadcast := Some True\<rparr>\<rparr>)\<rparr>"

section \<open>Namespace.emit and ParentNamespace.emit\<close>

definition Namespace_events :: "string list" where
  "Namespace_events = [''connect'', ''connection'', ''newListener'']"

text \<open>
  \<open>Namespace.emit(ev, ...rest)\<close>. \<open>new Set(this.rooms)\<close> and \<open>Object.assign({}, this.flags)\<close>
  copy the values; \<open>this.rooms.clear()\<close> empties the \<open>Set\<close> object in place, and
  \<open>this.flags = {}\<close> points the field at a new object.
\<close>

definition Namespace_emit :: "ref \<Rightarrow> string \<Rightarrow> jsval list \<Rightarrow> World \<Rightarrow> result" where
  "Namespace_emit this ev rest w =
     (if ev \<in> set Namespace_events then EventEmitter_emit (OnNamespace this) ev rest w
      else
        let n = Namespaces w this;
            args = VStr ev # rest;
            packet = event_packet (FlagObjs w (n_flags n)) args
        in if is_function (last args) then
             Inl (Error ''Callbacks are not supported when broadcasting'', w)
           else
             let rooms = Sets w (n_rooms n);
                 flags = FlagObjs w (n_flags n);
                 w = w\<lparr>Sets := (Sets w)(n_rooms n := [])\<rparr>;
                 w = w\<lparr>FlagObjs := (FlagObjs w)(fresh w := no_flags),
                       Namespaces := (Namespaces w)(this := n\<lparr>n_flags := fresh w\<rparr>),
                       fresh := fresh w + 1\<rparr>
             in Inr (Adapter_broadcast (n_adapter n) packet
                       \<lparr>b_except = None, b_rooms = rooms, b_flags = flags\<rparr> w))"


text \<open>
  \<open>ParentNamespace.emit(...args)\<close>: the body of \<open>this.children.forEach\<close>, child by child
  in insertion order, then the reset of the parent. An error thrown by a child's emit
  leaves the loop.
\<close>

fun ParentNamespace_emit_forEach ::
    "ref \<Rightarrow> ref list \<Rightarrow> string \<Rightarrow> jsval list \<Rightarrow> World \<Rightarrow> result" where
  "ParentNamespace_emit_forEach this [] ev rest w = Inr w"
| "ParentNamespace_emit_forEach this (nsp # others) ev rest w =
     (let p = Parents w this;
          w = w\<lparr>Namespaces := (Namespaces w)
                (nsp := (Namespaces w nsp)\<lparr>n_rooms := p_rooms p, n_flags := p_flags p\<rparr>)\<rparr>
      in case Namespace_emit nsp ev rest w of
           Inl e \<Rightarrow> Inl e
         | Inr w \<Rightarrow> ParentNamespace_emit_forEach this others ev rest w)"

definition ParentNamespace_emit :: "ref \<Rightarrow> string \<Rightarrow> jsval list \<Rightarrow> World \<Rightarrow> result" where
  "ParentNamespace_emit this ev rest w =
     (case ParentNamespace_emit_forEach this (children (Parents w this)) ev rest w of
        Inl e \<Rightarrow> Inl e
      | Inr w \<Rightarrow>
          let p = Parents w this;
              w = w\<lparr>Sets := (Sets w)(p_rooms p := [])\<rparr>
          in Inr (w\<lparr>FlagObjs := (FlagObjs w)(fresh w := no_flags),
                    Parents := (Parents w)(this := p\<lparr>p_flags := fresh w\<rparr>),
                    fresh := fresh w + 1\<rparr>))"

definition ParentNamespace_to :: "ref \<Rightarrow> Room \<Rightarrow> World \<Rightarrow> World" where
  "ParentNamespace_to this name w =
     w\<lparr>Sets := (Sets w)
        (p_rooms (Parents w this) := set_add name (Sets w (p_rooms (Parents w this))))\<rparr>"

section \<open>Rooms and the life cycle of a Socket\<close>

text \<open>
  \<open>join\<close>, \<open>leave\<close> and \<open>leaveAll\<close> call the adapter captured at construction; the entry
  of the call records what the adapter finds of the socket when it is called. The
  optional callback of \<open>join\<close> and \<open>leave\<close> is user code and is left out.
\<close>

definition Socket_join :: "ref \<Rightarrow> Room list \<Rightarrow> World \<Rightarrow> World" where
  "Socket_join this rooms w =
     (let s = Sockets w this;
          rooms = fold set_add rooms []
      in log (AddAll (s_adapter s) (s_id s) rooms (view this w))
           (w\<lparr>Adapters := (Adapters w)
                (s_adapter s := addAll (s_id s) rooms (Adapters w (s_adapter s)))\<rparr>))"


definition Socket_leaveAll :: "ref \<Rightarrow> World \<Rightarrow> World" where
  "Socket_leaveAll this w =
     (let s = Sockets w this
      in log (DelAll (s_adapter s) (s_id s) (view this w))
           (w\<lparr>Adapters := (Adapters w)
                (s_adapter s := delAll (s_id s) (Adapters w (s_adapter s)))\<rparr>))"

text \<open>The getter \<open>rooms\<close>.\<close>

definition Socket_rooms :: "ref \<Rightarrow> World \<Rightarrow> Room list" where
  "Socket_rooms this w =
     socketRooms (Adapters w (s_adapter (Sockets w this))) (s_id (Sockets w this))"

definition Socket_onconnect :: "ref \<Rightarrow> World \<Rightarrow> World" where
  "Socket_onconnect this w =
     (let s = Sockets w this;
          w = w\<lparr>Namespaces := (Namespaces w)
                (s_nsp s := (Namespaces w (s_nsp s))
                   \<lparr>n_connected := AList.update (s_id s) this
                      (n_connected (Namespaces w (s_nsp s)))\<rparr>)\<rparr>;
          w = Socket_join this [s_id s] w;
          skip = (n_name (Namespaces w (s_nsp s)) = ''/''
                  \<and> length (n_fns (Namespaces w (s_nsp s))) = 0)
      in if skip then w
         else Socket_packet this
                \<lparr>p_type = CONNECT, p_nsp = None, p_id = None, p_data = None\<rparr> no_opts w)"

definition Namespace_remove :: "ref \<Rightarrow> ref \<Rightarrow> World \<Rightarrow> World" where
  "Namespace_remove this socket w =
     (let n = Namespaces w this;
          sid = s_id (Sockets w socket)
      in if map_of (n_sockets n) sid \<noteq> None then
           w\<lparr>Namespaces := (Namespaces w)
              (this := n\<lparr>n_sockets := AList.delete sid (n_sockets n)\<rparr>)\<rparr>
         else w)"

definition Client_remove :: "ref \<Rightarrow> ref \<Rightarrow> World \<Rightarrow> World" where
  "Client_remove this socket w =
     (let c = Clients w this;
          sid = s_id (Sockets w socket)
      in case map_of (c_sockets c) sid of
           Some found \<Rightarrow>
             let nsp = n_name (Namespaces w (s_nsp (Sockets w found)))
             in w\<lparr>Clients := (Clients w)
                   (this := c\<lparr>c_sockets := AList.delete sid (c_sockets c),
                              c_nsps := AList.delete nsp (c_nsps c)\<rparr>)\<rparr>
         | None \<Rightarrow> w)"

text \<open>
  \<open>Socket.onclose\<close>. The two events it emits are not \<open>error\<close>, so that \<open>emit\<close> returns and
  the store after it is \<open>final\<close> of its result.
\<close>

definition Socket_onclose :: "ref \<Rightarrow> string \<Rightarrow> World \<Rightarrow> World" where
  "Socket_onclose this reason w =
     (if \<not> s_connected (Sockets w this) then w
      else
        let w = final (EventEmitter_emit (OnSocket this) ''disconnecting'' [VStr reason] w);
            w = Socket_leaveAll this w;
            w = Namespace_remove (s_nsp (Sockets w this)) this w;
            w = Client_remove (s_client (Sockets w this)) this w;
            w = w\<lparr>Sockets := (Sockets w)
                  (this := (Sockets w this)\<lparr>s_connected := False, s_disconnected := True\<rparr>)\<rparr>;
            nsp = s_nsp (Sockets w this);
            w = w\<lparr>Namespaces := (Namespaces w)
                  (nsp := (Namespaces w nsp)
                     \<lparr>n_connected := AList.delete (s_id (Sockets w this))
                        (n_connected (Namespaces w nsp))\<rparr>)\<rparr>
        in final (EventEmitter_emit (OnSocket this) ''disconnect'' [VStr reason] w))"

definition Socket_error :: "ref \<Rightarrow> string \<Rightarrow> World \<Rightarrow> World" where
  "Socket_error this err w =
     Socket_packet this
       \<lparr>p_type = ERROR, p_nsp = None, p_id = None, p_data = Some (VStr err)\<rparr> no_opts w"

section \<open>Disconnecting\<close>

text \<open>
  \<open>Client.onclose\<close>, \<open>Client.close\<close> and \<open>Client.disconnect\<close>. The loops run over the
  values of \<open>this.sockets\<close> in insertion order; a visited socket removes at most its own
  entry. \<open>conn.close()\<close> belongs to the transport: it is recorded, and the connection
  leaves the open state.
\<close>

definition Client_onclose :: "ref \<Rightarrow> string \<Rightarrow> World \<Rightarrow> World" where
  "Client_onclose this reason w =
     (let w = w\<lparr>Clients := (Clients w)(this := (Clients w this)\<lparr>c_listening := False\<rparr>)\<rparr>;
          w = fold (\<lambda>socket. Socket_onclose socket reason)
                (map snd (c_sockets (Clients w this))) w
      in w\<lparr>Clients := (Clients w)(this := (Clients w this)\<lparr>c_sockets := []\<rparr>)\<rparr>)"

definition Client_close :: "ref \<Rightarrow> World \<Rightarrow> World" where
  "Client_close this w =
     (let c = Clients w this in
      if readyState (c_conn c) = rs_open then
        let w = log (Close (conn_id (c_conn c)))
                  (w\<lparr>Clients := (Clients w)
                       (this := c\<lparr>c_conn := (c_conn c)\<lparr>readyState := rs_closing\<rparr>\<rparr>)\<rparr>)
        in Client_onclose this ''forced server close'' w
      else w)"

text \<open>\<open>Socket.disconnect()\<close> with \<open>close\<close> at its default \<open>false\<close>.\<close>

definition Socket_disconnect_default :: "ref \<Rightarrow> World \<Rightarrow> World" where
  "Socket_disconnect_default this w =
     (if \<not> s_connected (Sockets w this) then w
      else
        let w = Socket_packet this
                  \<lparr>p_type = DISCONNECT, p_nsp = None, p_id = None, p_data = None\<rparr> no_opts w
        in Socket_onclose this ''server namespace disconnect'' w)"

definition Client_disconnect :: "ref \<Rightarrow> World \<Rightarrow> World" where
  "Client_disconnect this w =
     (let w = fold Socket_disconnect_default (map snd (c_sockets (Clients w this))) w;
          w = w\<lparr>Clients := (Clients w)(this := (Clients w this)\<lparr>c_sockets := []\<rparr>)\<rparr>
      in Client_close this w)"

definition Socket_disconnect :: "ref \<Rightarrow> bool \<Rightarrow> World \<Rightarrow> World" where
  "Socket_disconnect this close w =
     (if \<not> s_connected (Sockets w this) then w
      else if close then Client_disconnect (s_client (Sockets w this)) w
      else
        let w = Socket_packet this
                  \<lparr>p_type = DISCONNECT, p_nsp = None, p_id = None, p_data = None\<rparr> no_opts w
        in Socket_onclose this ''server namespace disconnect'' w)"

section \<open>Namespaces of the server\<close>

text \<open>
  \<open>new Namespace(server, name)\<close>: the object, its adapter (\<open>initAdapter\<close>), its \<open>Set\<close> of
  rooms and its flags object are allocated at the next free address.
\<close>

definition new_Namespace :: "string \<Rightarrow> World \<Rightarrow> ref \<times> World" where
  "new_Namespace name w =
     (let a = fresh w
      in (a, w\<lparr>Namespaces := (Namespaces w)
                  (a := \<lparr>n_name = name, n_connected = [], n_adapter = a, n_fns = [],
                         n_rooms = a, n_flags = a, n_ids = 0, n_sockets = [],
                         n_listeners = []\<rparr>),
                Adapters := (Adapters w)(a := \<lparr>a_rooms = [], a_sids = []\<rparr>),
                Sets := (Sets w)(a := []),
                FlagObjs := (FlagObjs w)(a := no_flags),
                fresh := a + 1\<rparr>))"

text \<open>\<open>Server.of(name, fn)\<close> for a name that is a string.\<close>

definition Server_of :: "string \<Rightarrow> nat option \<Rightarrow> World \<Rightarrow> ref \<times> World" where
  "Server_of name fn w =
     (let name = (if (case name of [] \<Rightarrow> True | c # cs \<Rightarrow> c \<noteq> CHR ''/'') then ''/'' @ name
                  else name);
          (nsp, w) = (case map_of (nsps (server w)) name of
                        Some nsp \<Rightarrow> (nsp, w)
                      | None \<Rightarrow>
                          let (nsp, w) = new_Namespace name w
                          in (nsp, w\<lparr>server := (server w)
                                      \<lparr>nsps := AList.update name nsp (nsps (server w))\<rparr>\<rparr>))
      in case fn of
           None \<Rightarrow> (nsp, w)
         | Some l \<Rightarrow>
             (nsp, w\<lparr>Namespaces := (Namespaces w)
                       (nsp := (Namespaces w nsp)
                          \<lparr>n_listeners := n_listeners (Namespaces w nsp) @ [(''connect'', l)]\<rparr>)\<rparr>))"

text \<open>
  \<open>Server.of(name, fn)\<close> for a function or a regular expression (wrapped into a function
  by the code, a new one at every call): a \<open>ParentNamespace\<close> named \<open>"/_" + count\<close> is
  set in \<open>parentNsps\<close> under the key of the function. As \<open>Map.set\<close> does, a key that is
  there already keeps its place and gets the new parent.
\<close>

fun decimal :: "nat \<Rightarrow> string" where
  "decimal n =
     (if n < 10 then [''0123456789'' ! n]
      else decimal (n div 10) @ [''0123456789'' ! (n mod 10)])"

declare decimal.simps [simp del]

definition Server_of_matcher :: "nat \<Rightarrow> matcher \<Rightarrow> nat option \<Rightarrow> World \<Rightarrow> ref \<times> World" where
  "Server_of_matcher key m fn w =
     (let a = fresh w;
          parentNsp = \<lparr>p_name = ''/_'' @ decimal (parent_count w),
                       p_fns = [], p_rooms = a, p_flags = a,
                       p_listeners = (case fn of None \<Rightarrow> [] | Some l \<Rightarrow> [(''connect'', l)]),
                       children = []\<rparr>
      in (a, w\<lparr>Parents := (Parents w)(a := parentNsp),
                Sets := (Sets w)(a := []),
                FlagObjs := (FlagObjs w)(a := no_flags),
                fresh := a + 1,
                parent_count := parent_count w + 1,
                server := (server w)
                  \<lparr>parentNsps := AList.update key (m, a) (parentNsps (server w))\<rparr>\<rparr>))"

definition ParentNamespace_createChild :: "ref \<Rightarrow> string \<Rightarrow> World \<Rightarrow> ref \<times> World" where
  "ParentNamespace_createChild this name w =
     (let (namespace, w) = new_Namespace name w;
          p = Parents w this;
          w = w\<lparr>Namespaces := (Namespaces w)
                (namespace := (Namespaces w namespace)
                   \<lparr>n_fns := p_fns p,
                    n_listeners := filter (\<lambda>l. fst l = ''connect'') (p_listeners p)
                                   @ filter (\<lambda>l. fst l = ''connection'') (p_listeners p)\<rparr>)\<rparr>;
          w = w\<lparr>Parents := (Parents w)(this := p\<lparr>children := set_add namespace (children p)\<rparr>)\<rparr>;
          w = w\<lparr>server := (server w)\<lparr>nsps := AList.update name namespace (nsps (server w))\<rparr>\<rparr>
      in (namespace, w))"

text \<open>
  \<open>Server.checkNamespace\<close>: the inner \<open>run\<close> walks the keys of \<open>parentNsps\<close> in insertion
  order and stops at the first matcher that answers without error and with \<open>allow\<close>; the
  result is what the code passes to \<open>fn\<close>: the child created, or \<open>None\<close> for \<open>false\<close>.
\<close>

fun checkNamespace_run ::
    "(nat \<times> matcher \<times> ref) list \<Rightarrow> string \<Rightarrow> query \<Rightarrow> ref option" where
  "checkNamespace_run [] name q = None"
| "checkNamespace_run ((key, nextFn, parent) # keys) name q =
     (case nextFn name q of
        (err, allow) \<Rightarrow>
          if err \<or> \<not> allow then checkNamespace_run keys name q else Some parent)"

definition Server_checkNamespace :: "string \<Rightarrow> query \<Rightarrow> World \<Rightarrow> ref option \<times> World" where
  "Server_checkNamespace name q w =
     (if length (parentNsps (server w)) = 0 then (None, w)
      else case checkNamespace_run (parentNsps (server w)) name q of
             None \<Rightarrow> (None, w)
           | Some parent \<Rightarrow>
               let (child, w) = ParentNamespace_createChild parent name w
               in (Some child, w))"

section \<open>Connecting a client to a namespace\<close>

text \<open>\<open>Object.assign(target, source)\<close> on string-keyed objects.\<close>

definition assign :: "('k \<times> 'v) list \<Rightarrow> ('k \<times> 'v) list \<Rightarrow> ('k \<times> 'v) list" where
  "assign target source = fold (\<lambda>(k, v). AList.update k v) source target"

definition buildHandshake :: "Conn \<Rightarrow> query \<Rightarrow> nat \<Rightarrow> Handshake" where
  "buildHandshake conn q now =
     \<lparr>hs_headers = req_headers (request conn),
      hs_time = now,
      hs_address = remoteAddress conn,
      hs_xdomain = (case map_of (req_headers (request conn)) ''origin'' of
                      None \<Rightarrow> False | Some origin \<Rightarrow> origin \<noteq> []),
      hs_secure = req_encrypted (request conn),
      hs_issued = now,
      hs_url = req_url (request conn),
      hs_query = assign (assign [] (case q of QObject kv \<Rightarrow> kv | QIndex i \<Rightarrow> []))
                   (req_query (request conn))\<rparr>"

definition new_Socket :: "ref \<Rightarrow> ref \<Rightarrow> query \<Rightarrow> World \<Rightarrow> Socket" where
  "new_Socket nsp client q w =
     (let n = Namespaces w nsp;
          c = Clients w client
      in \<lparr>s_id = (if n_name n \<noteq> ''/'' then n_name n @ ''#'' @ c_id c else c_id c),
          s_handshake = buildHandshake (c_conn c) q (clock w),
          s_connected = True,
          s_disconnected = False,
          s_nsp = nsp,
          s_client = client,
          s_adapter = n_adapter n,
          s_acks = [],
          s_flags = no_flags,
          s_rooms = [],
          s_listeners = []\<rparr>)"

text \<open>
  \<open>Namespace.run\<close>: the middleware are called in order on the socket; the first error
  ends the run.
\<close>

fun Namespace_run :: "middleware list \<Rightarrow> Socket \<Rightarrow> string option" where
  "Namespace_run [] socket = None"
| "Namespace_run (f # fns) socket =
     (case f socket of Some err \<Rightarrow> Some err | None \<Rightarrow> Namespace_run fns socket)"

text \<open>
  \<open>Namespace.add(client, query, fn)\<close>: the socket is constructed, the middleware run, and
  the continuation is handed to \<open>process.nextTick\<close>. Its only caller is
  \<open>Client.doConnect\<close>, whose callback \<open>fn\<close> is part of the continuation below.
\<close>

definition Namespace_add :: "ref \<Rightarrow> ref \<Rightarrow> query \<Rightarrow> World \<Rightarrow> ref \<times> World" where
  "Namespace_add this client q w =
     (let socket = fresh w;
          w = w\<lparr>Sockets := (Sockets w)(socket := new_Socket this client q w),
                fresh := fresh w + 1\<rparr>;
          err = Namespace_run (n_fns (Namespaces w this)) (Sockets w socket)
      in (socket, w\<lparr>nextTick := nextTick w @ [Added this socket client err]\<rparr>))"

definition Client_doConnect :: "ref \<Rightarrow> string \<Rightarrow> query \<Rightarrow> World \<Rightarrow> World" where
  "Client_doConnect this name q w =
     (let (nsp, w) = Server_of name None w in
      if ''/'' \<noteq> name \<and> map_of (c_nsps (Clients w this)) ''/'' = None then
        w\<lparr>Clients := (Clients w)
           (this := (Clients w this)
              \<lparr>connectBuffer := connectBuffer (Clients w this) @ [name]\<rparr>)\<rparr>
      else snd (Namespace_add nsp this q w))"

definition Client_connect :: "ref \<Rightarrow> string \<Rightarrow> query \<Rightarrow> World \<Rightarrow> World" where
  "Client_connect this name q w =
     (if map_of (nsps (server w)) name \<noteq> None then Client_doConnect this name q w
      else
        case Server_checkNamespace name q w of
          (Some dynamicNsp, w) \<Rightarrow> Client_doConnect this name q w
        | (None, w) \<Rightarrow>
            Client_packet this
              \<lparr>p_type = ERROR, p_nsp = Some name, p_id = None,
               p_data = Some (VStr ''Invalid namespace'')\<rparr> no_opts w)"

text \<open>\<open>this.connectBuffer.forEach(this.connect, this)\<close>: \<open>connect(name, index)\<close> in order.\<close>

fun connectBuffer_forEach :: "ref \<Rightarrow> string list \<Rightarrow> nat \<Rightarrow> World \<Rightarrow> World" where
  "connectBuffer_forEach this [] i w = w"
| "connectBuffer_forEach this (name # names) i w =
     connectBuffer_forEach this names (i + 1) (Client_connect this name (QIndex i) w)"

text \<open>The callback that \<open>Client.doConnect\<close> passes to \<open>Namespace.add\<close>.\<close>

definition Client_doConnect_fn :: "ref \<Rightarrow> ref \<Rightarrow> ref \<Rightarrow> World \<Rightarrow> World" where
  "Client_doConnect_fn this socket nsp w =
     (let c = Clients w this;
          w = w\<lparr>Clients := (Clients w)
                (this := c\<lparr>c_sockets := AList.update (s_id (Sockets w socket)) socket (c_sockets c),
                           c_nsps := AList.update (n_name (Namespaces w nsp)) socket (c_nsps c)\<rparr>)\<rparr>
      in if ''/'' = n_name (Namespaces w nsp) \<and> length (connectBuffer (Clients w this)) > 0 then
           let w = connectBuffer_forEach this (connectBuffer (Clients w this)) 0 w
           in w\<lparr>Clients := (Clients w)(this := (Clients w this)\<lparr>connectBuffer := []\<rparr>)\<rparr>
         else w)"

text \<open>The continuation of \<open>Namespace.add\<close>, run on a later tick.\<close>

fun run_task :: "task \<Rightarrow> World \<Rightarrow> World" where
  "run_task (Added this socket client err) w =
     (if readyState (c_conn (Clients w client)) = rs_open then
        (case err of
           Some msg \<Rightarrow> Socket_error socket msg w
         | None \<Rightarrow>
             let w = w\<lparr>Namespaces := (Namespaces w)
                       (this := (Namespaces w this)
                          \<lparr>n_sockets := AList.update (s_id (Sockets w socket)) socket
                             (n_sockets (Namespaces w this))\<rparr>)\<rparr>;
                 w = Socket_onconnect socket w;
                 w = Client_doConnect_fn client socket this w;
                 w = final (EventEmitter_emit (OnNamespace this) ''connect'' [VSocket socket] w)
             in final (EventEmitter_emit (OnNamespace this) ''connection'' [VSocket socket] w))
      else w)"

text \<open>One turn of the event loop: the oldest continuation runs.\<close>

definition tick :: "World \<Rightarrow> World" where
  "tick w = (case nextTick w of [] \<Rightarrow> w | t # ts \<Rightarrow> run_task t (w\<lparr>nextTick := ts\<rparr>))"

section \<open>The initial packet\<close>






section \<open>Construction\<close>

text \<open>
  The \<open>Server\<close> constructor creates the default namespace (\<open>this.sockets = this.of("/")\<close>);
  \<open>Server.onconnection\<close> creates a \<open>Client\<close> for an incoming connection and connects it to
  the default namespace. In \<open>blank\<close> nothing is allocated yet.
\<close>

definition blank :: World where
  "blank =
     \<lparr>Sockets = (\<lambda>a. \<lparr>s_id = [], s_handshake = buildHandshake
                     \<lparr>conn_id = [], readyState = rs_closed, transport_writable = False,
                      remoteAddress = [], request = \<lparr>req_headers = [], req_url = [],
                      req_query = [], req_encrypted = False\<rparr>\<rparr> (QObject []) 0,
                   s_connected = False, s_disconnected = True, s_nsp = 0, s_client = 0,
                   s_adapter = 0, s_acks = [], s_flags = no_flags, s_rooms = [],
                   s_listeners = []\<rparr>),
      Namespaces = (\<lambda>a. \<lparr>n_name = [], n_connected = [], n_adapter = 0, n_fns = [],
                   n_rooms = 0, n_flags = 0, n_ids = 0, n_sockets = [], n_listeners = []\<rparr>),
      Parents = (\<lambda>a. \<lparr>p_name = [], p_fns = [], p_rooms = 0, p_flags = 0, p_listeners = [],
                   children = []\<rparr>),
      Clients = (\<lambda>a. \<lparr>c_conn = \<lparr>conn_id = [], readyState = rs_closed,
                   transport_writable = False, remoteAddress = [],
                   request = \<lparr>req_headers = [], req_url = [], req_query = [],
                   req_encrypted = False\<rparr>\<rparr>,
                   c_id = [], c_sockets = [], c_nsps = [], connectBuffer = [],
                   c_listening = False\<rparr>),
      Adapters = (\<lambda>a. \<lparr>a_rooms = [], a_sids = []\<rparr>),
      Sets = (\<lambda>a. []),
      FlagObjs = (\<lambda>a. no_flags),
      fresh = 0,
      server = \<lparr>sockets = 0, nsps = [], parentNsps = [], eio = None\<rparr>,
      parent_count = 0,
      nextTick = [],
      trace = [],
      clock = 0\<rparr>"

definition new_Server :: "World \<Rightarrow> World" where
  "new_Server w = (let (nsp, w) = Server_of ''/'' None w in w\<lparr>server := (server w)\<lparr>sockets := nsp\<rparr>\<rparr>)"

definition new_Client :: "Conn \<Rightarrow> World \<Rightarrow> ref \<times> World" where
  "new_Client conn w =
     (let a = fresh w
      in (a, w\<lparr>Clients := (Clients w)
                  (a := \<lparr>c_conn = conn, c_id = conn_id conn, c_sockets = [], c_nsps = [],
                         connectBuffer = [], c_listening = True\<rparr>),
                fresh := a + 1\<rparr>))"

definition Server_onconnection :: "Conn \<Rightarrow> World \<Rightarrow> World" where
  "Server_onconnection conn w =
     (let (client, w) = new_Client conn w in Client_connect client ''/'' (QObject []) w)"

section \<open>Example stores\<close>

text \<open>
  \<open>world1\<close>: a server with the default namespace only (at address 0) and one client
  \<open>c1\<close> (at address 1) over an open connection, whose socket on \<open>/\<close> (at address 2) has
  been approved. \<open>pending1\<close> is the same server one tick earlier: the socket of \<open>c1\<close> on
  \<open>/\<close> is constructed and not yet approved. \<open>staged1\<close> is \<open>world1\<close> after
  \<open>socket.to("r1")\<close>.
\<close>

definition conn1 :: Conn where
  "conn1 = \<lparr>conn_id = ''c1'', readyState = rs_open, transport_writable = True,
     remoteAddress = ''10.0.0.1'',
     request = \<lparr>req_headers = [], req_url = ''/socket.io/'', req_query = [],
       req_encrypted = False\<rparr>\<rparr>"

definition pending1 :: World where
  "pending1 = Server_onconnection conn1 (new_Server blank)"

definition world1 :: World where
  "world1 = tick pending1"

definition staged1 :: World where
  "staged1 = Socket_to 2 ''r1'' world1"

text \<open>
  \<open>parent_world\<close>: a server with a parent namespace (at address 1) whose matcher accepts
  every name, for which \<open>createChild\<close> has made the children \<open>/a\<close> (at address 2) and
  \<open>/b\<close> (at address 3); then \<open>parent.to("r1")\<close> has staged one room.
\<close>

definition parent_world :: World where
  "parent_world =
     ParentNamespace_to 1 ''r1''
       (snd (ParentNamespace_createChild 1 ''/b''
          (snd (ParentNamespace_createChild 1 ''/a''
             (snd (Server_of_matcher 0 (\<lambda>name q. (False, True)) None (new_Server blank)))))))"


text \<open>
  \<open>dynamic_world\<close>: a server with two parent namespaces, the first under a matcher that
  refuses every name (at address 1), the second under a matcher that accepts the names
  beginning with \<open>/room-\<close> (at address 2), and a client \<open>c1\<close> (at address 3) over an open
  connection.
\<close>

definition refuse_all :: matcher where
  "refuse_all name q = (False, False)"

definition rooms_only :: matcher where
  "rooms_only name q = (False, take 6 name = ''/room-'')"

definition dynamic_world :: World where
  "dynamic_world =
     snd (new_Client conn1
       (snd (Server_of_matcher 1 rooms_only None
          (snd (Server_of_matcher 0 refuse_all None (new_Server blank))))))"

text \<open>
  \<open>chat_registered\<close>: \<open>pending1\<close> with a second namespace \<open>/chat\<close> (at address 3).
  \<open>early_chat\<close>: then a CONNECT of \<open>c1\<close> for \<open>/chat\<close> has arrived, before the tick that
  approves its socket on \<open>/\<close>.
\<close>

definition chat_registered :: World where
  "chat_registered = snd (Server_of ''/chat'' None pending1)"

definition early_chat :: World where
  "early_chat = Client_connect 1 ''/chat'' (QObject []) chat_registered"


text \<open>
  \<open>listening1\<close>: \<open>world1\<close> after \<open>socket.on("error", listener)\<close>.
  \<open>dynamic_ready\<close>: \<open>world1\<close>, where the socket of \<open>c1\<close> on \<open>/\<close> is approved, after the
  two matchers of \<open>dynamic_world\<close> have been registered (their parents at addresses 3
  and 4). \<open>attached_pending\<close>: as \<open>pending1\<close>, on a server that \<open>attach\<close> was called on before
  the connection came in. \<open>attached_approving\<close>: the state of the next tick in which the
  continuation of \<open>Namespace.add\<close>, having entered the socket in \<open>nsp.sockets\<close>, calls
  \<open>socket.onconnect()\<close>.
\<close>

definition listening1 :: World where
  "listening1 = EventEmitter_on (OnSocket 2) ''error'' 0 world1"

definition dynamic_ready :: World where
  "dynamic_ready =
     snd (Server_of_matcher 1 rooms_only None
       (snd (Server_of_matcher 0 refuse_all None world1)))"



section \<open>The states of a server\<close>



definition same_default :: "World \<Rightarrow> World \<Rightarrow> bool" where
  "same_default w w' =
     (sockets (server w') = sockets (server w)
      \<and> eio (server w') = eio (server w)
      \<and> fresh w \<le> fresh w'
      \<and> map_of (nsps (server w')) ''/'' = map_of (nsps (server w)) ''/''
      \<and> (\<forall>a. (n_name (Namespaces w' a) = ''/'') = (n_name (Namespaces w a) = ''/''))
      \<and> (\<forall>a. (p_name (Parents w' a) = ''/'') = (p_name (Parents w a) = ''/''))
      \<and> (\<forall>a. n_name (Namespaces w a) = ''/''
             \<longrightarrow> n_fns (Namespaces w' a) = n_fns (Namespaces w a)))"

section \<open>Facts used by several claims\<close>

lemma Client_packet_trace:
  "trace (Client_packet c p opts w) = trace w @
     (if readyState (c_conn (Clients w c)) = rs_open
         \<and> \<not> (truthy (o_volatile opts) \<and> \<not> transport_writable (c_conn (Clients w c)))
      then [Write (conn_id (c_conn (Clients w c))) p (o_preEncoded opts) (o_compress opts)]
      else [])"
  by (simp add: Client_packet_def Let_def log_def)

lemma Client_packet_frame:
  "Sockets (Client_packet c p opts w) = Sockets w"
  "Namespaces (Client_packet c p opts w) = Namespaces w"
  "Clients (Client_packet c p opts w) = Clients w"
  "Adapters (Client_packet c p opts w) = Adapters w"
  "nextTick (Client_packet c p opts w) = nextTick w"
  "fresh (Client_packet c p opts w) = fresh w"
  "server (Client_packet c p opts w) = server w"
  by (simp_all add: Client_packet_def Let_def log_def)

lemma Socket_packet_frame:
  "Sockets (Socket_packet s p opts w) = Sockets w"
  "Namespaces (Socket_packet s p opts w) = Namespaces w"
  "Clients (Socket_packet s p opts w) = Clients w"
  "Adapters (Socket_packet s p opts w) = Adapters w"
  "nextTick (Socket_packet s p opts w) = nextTick w"
  "fresh (Socket_packet s p opts w) = fresh w"
  "server (Socket_packet s p opts w) = server w"
  by (simp_all add: Socket_packet_def Let_def Client_packet_frame)

lemma Socket_packet_trace:
  "trace (Socket_packet this p opts w) = trace w @
     (let s = Sockets w this; conn = c_conn (Clients w (s_client s))
      in if readyState conn = rs_open
            \<and> \<not> (truthy (o_volatile opts) \<and> \<not> transport_writable conn)
         then [Write (conn_id conn) (p\<lparr>p_nsp := Some (n_name (Namespaces w (s_nsp s)))\<rparr>)
                 (o_preEncoded opts) (Some (o_compress opts \<noteq> Some False))]
         else [])"
  by (simp add: Socket_packet_def Let_def Client_packet_trace)

text \<open>The three ways through \<open>Socket.emit\<close>.\<close>

lemma Socket_emit_reserved:
  assumes "ev \<in> set Socket_events"
  shows "Socket_emit this ev rest w = EventEmitter_emit (OnSocket this) ev rest w"
  using assms unfolding Socket_emit_def by simp

lemma Socket_emit_plain:
  assumes "ev \<notin> set Socket_events" and "\<not> is_function (last (VStr ev # rest))"
  shows "Socket_emit this ev rest w =
     (let s = Sockets w this;
          packet = event_packet (s_flags s) (VStr ev # rest);
          w1 = w\<lparr>Sockets := (Sockets w)(this := s\<lparr>s_rooms := [], s_flags := no_flags\<rparr>)\<rparr>
      in if s_rooms s \<noteq> [] \<or> truthy (f_broadcast (s_flags s)) then
           Inr (Adapter_broadcast (s_adapter s) packet
                  \<lparr>b_except = Some [s_id s], b_rooms = s_rooms s, b_flags = s_flags s\<rparr> w1)
         else Inr (Socket_packet this packet (opts_of_flags (s_flags s)) w1))"
  using assms unfolding Socket_emit_def by (simp add: Let_def)

lemma Socket_emit_callback:
  assumes "ev \<notin> set Socket_events" and "is_function (last (VStr ev # rest))"
  shows "Socket_emit this ev rest w =
     (let s = Sockets w this;
          n = Namespaces w (s_nsp s);
          args = VStr ev # rest
      in if s_rooms s \<noteq> [] \<or> truthy (f_broadcast (s_flags s)) then
           Inl (Error ''Callbacks are not supported when broadcasting'', w)
         else Inr (Socket_packet this
                ((event_packet (s_flags s) args)
                   \<lparr>p_id := Some (n_ids n), p_data := Some (VArray (butlast args))\<rparr>)
                (opts_of_flags (s_flags s))
                (w\<lparr>Namespaces := (Namespaces w)(s_nsp s := n\<lparr>n_ids := n_ids n + 1\<rparr>),
                    Sockets := (Sockets w)
                     (this := s\<lparr>s_acks := AList.update (n_ids n) (last args) (s_acks s),
                                s_rooms := [], s_flags := no_flags\<rparr>)\<rparr>)))"
  using assms unfolding Socket_emit_def by (simp add: Let_def)


lemma example_socket:
  "s_id (Sockets world1 2) = ''c1''"
  "s_rooms (Sockets world1 2) = []"
  "s_flags (Sockets world1 2) = no_flags"
  "s_adapter (Sockets world1 2) = 0"
  "s_client (Sockets world1 2) = 1"
  "s_nsp (Sockets world1 2) = 0"
  "s_acks (Sockets world1 2) = []"
  "s_connected (Sockets world1 2)"
  "c_conn (Clients world1 1) = conn1"
  "n_name (Namespaces world1 0) = ''/''"
  "n_ids (Namespaces world1 0) = 0"
  by code_simp+

lemma example_staged:
  "s_id (Sockets staged1 2) = ''c1''"
  "s_rooms (Sockets staged1 2) = [''r1'']"
  "s_flags (Sockets staged1 2) = no_flags"
  "s_adapter (Sockets staged1 2) = 0"
  by code_simp+

lemma example_client:
  "c_conn (Clients world1 (Suc 0)) = conn1"
  "c_conn (Clients pending1 (Suc 0)) = conn1"
  by code_simp+

section \<open>Claims about Socket.emit and Namespace.emit\<close>




text \<open>
  C3 (as amended). Let the last argument be a function. \<open>Socket.emit\<close> with a non-reserved
  event name throws "Callbacks are not supported when broadcasting" and leaves the store
  as it was (no packet, no id taken, nothing stored in \<open>acks\<close>) when a room is staged or the
  \<open>broadcast\<close> flag is set; otherwise it takes the value of the namespace counter as id,
  increments the counter, stores the callback in \<open>acks\<close> under the id, and hands to
  \<open>Socket.packet\<close> the packet with this id and without the callback in its data.
  \<open>Namespace.emit\<close> with an event name that is not reserved for namespaces throws the same
  error and leaves the store as it was.
\<close>

theorem emit_with_callback:
  assumes "is_function (last (VStr ev # rest))"
  shows "(ev \<notin> set Socket_events \<longrightarrow>
           (let s = Sockets w this;
                n = Namespaces w (s_nsp s);
                args = VStr ev # rest
            in if s_rooms s \<noteq> [] \<or> truthy (f_broadcast (s_flags s)) then
                 Socket_emit this ev rest w =
                   Inl (Error ''Callbacks are not supported when broadcasting'', w)
               else
                 (\<exists>w'. Socket_emit this ev rest w = Inr w'
                    \<and> n_ids (Namespaces w' (s_nsp s)) = n_ids n + 1
                    \<and> map_of (s_acks (Sockets w' this)) (n_ids n) = Some (last args)
                    \<and> w' = Socket_packet this
                         ((event_packet (s_flags s) args)
                            \<lparr>p_id := Some (n_ids n), p_data := Some (VArray (butlast args))\<rparr>)
                         (opts_of_flags (s_flags s))
                         (w\<lparr>Namespaces := (Namespaces w)(s_nsp s := n\<lparr>n_ids := n_ids n + 1\<rparr>),
                            Sockets := (Sockets w)
                              (this := s\<lparr>s_acks := AList.update (n_ids n) (last args) (s_acks s),
                                         s_rooms := [], s_flags := no_flags\<rparr>)\<rparr>))))
       \<and> (ev \<notin> set Namespace_events \<longrightarrow>
            Namespace_emit nsp ev rest w =
              Inl (Error ''Callbacks are not supported when broadcasting'', w))"
proof (intro conjI impI)
  assume "ev \<notin> set Socket_events"
  then show "let s = Sockets w this;
                n = Namespaces w (s_nsp s);
                args = VStr ev # rest
            in if s_rooms s \<noteq> [] \<or> truthy (f_broadcast (s_flags s)) then
                 Socket_emit this ev rest w =
                   Inl (Error ''Callbacks are not supported when broadcasting'', w)
               else
                 (\<exists>w'. Socket_emit this ev rest w = Inr w'
                    \<and> n_ids (Namespaces w' (s_nsp s)) = n_ids n + 1
                    \<and> map_of (s_acks (Sockets w' this)) (n_ids n) = Some (last args)
                    \<and> w' = Socket_packet this
                         ((event_packet (s_flags s) args)
                            \<lparr>p_id := Some (n_ids n), p_data := Some (VArray (butlast args))\<rparr>)
                         (opts_of_flags (s_flags s))
                         (w\<lparr>Namespaces := (Namespaces w)(s_nsp s := n\<lparr>n_ids := n_ids n + 1\<rparr>),
                            Sockets := (Sockets w)
                              (this := s\<lparr>s_acks := AList.update (n_ids n) (last args) (s_acks s),
                                         s_rooms := [], s_flags := no_flags\<rparr>)\<rparr>))"
    using assms
    by (simp add: Socket_emit_callback Let_def Socket_packet_frame AList.update_conv')
next
  assume "ev \<notin> set Namespace_events"
  then show "Namespace_emit nsp ev rest w =
      Inl (Error ''Callbacks are not supported when broadcasting'', w)"
    using assms unfolding Namespace_emit_def by (simp add: Let_def)
qed

text \<open>The amended claim on \<open>world1\<close>: \<open>socket.emit("x", cb)\<close> and \<open>nsp.emit("x", cb)\<close>.\<close>

theorem emit_with_callback_witness:
  "(\<exists>w'. Socket_emit 2 ''x'' [VFunction 0] world1 = Inr w'
       \<and> n_ids (Namespaces w' 0) = 1
       \<and> map_of (s_acks (Sockets w' 2)) 0 = Some (VFunction 0))
   \<and> Namespace_emit 0 ''x'' [VFunction 0] world1
       = Inl (Error ''Callbacks are not supported when broadcasting'', world1)"
proof -
  have h: "is_function (last (VStr ''x'' # [VFunction 0]))"
    by simp
  have n: "''x'' \<notin> set Socket_events" "''x'' \<notin> set Namespace_events"
    by (simp_all add: Socket_events_def Namespace_events_def)
  show ?thesis
    using emit_with_callback [OF h, where this = 2 and w = world1 and nsp = 0] n
    by (simp add: Let_def example_socket no_flags_def)
qed

text \<open>
  The claim as stated fails for a reserved event name: with the room \<open>r1\<close> staged,
  \<open>emit("connect", cb)\<close> does not throw; it calls the local listeners.
\<close>

theorem emit_with_callback_counterexample:
  "is_function (last [VStr ''connect'', VFunction 0]) \<and> s_rooms (Sockets staged1 2) = [''r1'']
   \<and> outcome (Socket_emit 2 ''connect'' [VFunction 0] staged1)
       = (None, trace staged1 @
           [Emit (OnSocket 2) ''connect'' [VFunction 0] (Some (view 2 staged1))])"
  by code_simp

text \<open>
  C7 (as amended). \<open>Socket.emit\<close> with one of the names \<open>error\<close>, \<open>connect\<close>, \<open>disconnect\<close>,
  \<open>disconnecting\<close>, \<open>newListener\<close>, \<open>removeListener\<close>, and \<open>Namespace.emit\<close> with one of the
  names \<open>connect\<close>, \<open>connection\<close>, \<open>newListener\<close>, go to the local listeners of the event
  and do nothing else. An \<open>error\<close> event on a socket that has no listener for it is thrown
  to the caller, and the store is as it was; in every other case the call returns, and
  the store is unchanged but for the one entry of the trace that stands for the call of
  the listeners. Either way no packet is written and the adapter is not called.
\<close>

theorem emit_reserved_is_local:
  "(ev \<in> set [''error'', ''connect'', ''disconnect'', ''disconnecting'', ''newListener'',
       ''removeListener'']
      \<longrightarrow> Socket_emit this ev rest w =
            (if ev = ''error'' \<and> listeners (OnSocket this) ''error'' w = [] then
               Inl (case rest of
                      [] \<Rightarrow> UnhandledError VUndefined
                    | VError msg # others \<Rightarrow> Error msg
                    | er # others \<Rightarrow> UnhandledError er, w)
             else Inr (w\<lparr>trace := trace w @
                          [Emit (OnSocket this) ev rest (Some (view this w))]\<rparr>)))
   \<and> (ev \<in> set [''connect'', ''connection'', ''newListener'']
      \<longrightarrow> Namespace_emit nsp ev rest w
            = Inr (w\<lparr>trace := trace w @
                      [Emit (OnNamespace nsp) ev rest (seen (OnNamespace nsp) rest w)]\<rparr>))"
  unfolding Socket_emit_def Namespace_emit_def
  by (auto simp add: Socket_events_def Namespace_events_def EventEmitter_emit_def log_def)

text \<open>
  The amended claim on \<open>world1\<close>: \<open>socket.emit("disconnect", 1)\<close>,
  \<open>nsp.emit("connection", 1)\<close> and \<open>socket.emit("error", "boom")\<close>, which throws; and on
  \<open>listening1\<close>, where the same \<open>error\<close> goes to the listener.
\<close>

theorem emit_reserved_is_local_witness:
  "Socket_emit 2 ''disconnect'' [VNum 1] world1
     = Inr (world1\<lparr>trace := trace world1 @
         [Emit (OnSocket 2) ''disconnect'' [VNum 1] (Some (view 2 world1))]\<rparr>)
   \<and> Namespace_emit 0 ''connection'' [VNum 1] world1
     = Inr (world1\<lparr>trace := trace world1 @ [Emit (OnNamespace 0) ''connection'' [VNum 1] None]\<rparr>)
   \<and> Socket_emit 2 ''error'' [VStr ''boom''] world1
     = Inl (UnhandledError (VStr ''boom''), world1)
   \<and> Socket_emit 2 ''error'' [VStr ''boom''] listening1
     = Inr (listening1\<lparr>trace := trace listening1 @
         [Emit (OnSocket 2) ''error'' [VStr ''boom''] (Some (view 2 listening1))]\<rparr>)"
proof -
  have none: "listeners (OnSocket 2) ''error'' world1 = []"
    and some: "listeners (OnSocket 2) ''error'' listening1 = [0]"
    by code_simp+
  show ?thesis
    using emit_reserved_is_local [where ev = "''disconnect''" and this = 2 and rest = "[VNum 1]"
        and w = world1 and nsp = 0]
      emit_reserved_is_local [where ev = "''connection''" and this = 2 and rest = "[VNum 1]"
        and w = world1 and nsp = 0]
      emit_reserved_is_local [where ev = "''error''" and this = 2 and rest = "[VStr ''boom'']"
        and w = world1 and nsp = 0]
      emit_reserved_is_local [where ev = "''error''" and this = 2 and rest = "[VStr ''boom'']"
        and w = listening1 and nsp = 0]
    by (simp add: none some del: listeners.simps)
qed

text \<open>
  The claim as stated fails on a namespace: \<open>disconnect\<close> is not reserved there, and
  \<open>nsp.emit("disconnect")\<close> is broadcast through the adapter as an \<open>EVENT\<close> packet.
\<close>

theorem emit_reserved_counterexample:
  "outcome (Namespace_emit 0 ''disconnect'' [] world1)
     = (None, trace world1 @
         [Broadcast 0
            \<lparr>p_type = EVENT, p_nsp = None, p_id = None,
             p_data = Some (VArray [VStr ''disconnect''])\<rparr>
            \<lparr>b_except = None, b_rooms = [], b_flags = no_flags\<rparr>])"
  by code_simp

text \<open>
  C10 (as amended). A call of \<open>Socket.emit\<close> with a non-reserved event name that returns
  without error, whether the packet went to the client or to the adapter, leaves
  \<open>_rooms\<close> empty and \<open>flags\<close> equal to \<open>{}\<close>; the id, the handshake, the \<open>connected\<close> and
  \<open>disconnected\<close> flags, the namespace, the client and the adapter of the socket are
  unchanged, as are the entries of \<open>acks\<close> under every id other than the value of the
  namespace counter before the call, and every other socket.
\<close>

theorem Socket_emit_resets_staging:
  assumes "ev \<notin> set Socket_events" and "\<not> threw (Socket_emit this ev rest w)"
  shows "let s = Sockets w this; s' = Sockets (final (Socket_emit this ev rest w)) this
     in s_rooms s' = [] \<and> s_flags s' = no_flags
        \<and> s_id s' = s_id s \<and> s_handshake s' = s_handshake s
        \<and> s_connected s' = s_connected s \<and> s_disconnected s' = s_disconnected s
        \<and> s_nsp s' = s_nsp s \<and> s_client s' = s_client s \<and> s_adapter s' = s_adapter s
        \<and> (\<forall>k. k \<noteq> n_ids (Namespaces w (s_nsp s))
              \<longrightarrow> map_of (s_acks s') k = map_of (s_acks s) k)
        \<and> (\<forall>other. other \<noteq> this
              \<longrightarrow> Sockets (final (Socket_emit this ev rest w)) other = Sockets w other)"
proof (cases "is_function (last (VStr ev # rest))")
  case True
  with assms show ?thesis
    by (simp add: Socket_emit_callback Let_def Socket_packet_frame AList.update_conv'
        split: if_splits)
next
  case False
  with assms show ?thesis
    by (simp add: Socket_emit_plain Let_def Socket_packet_frame Adapter_broadcast_def log_def)
qed

text \<open>The amended claim on \<open>staged1\<close>: \<open>socket.to("r1").emit("x", 1)\<close>.\<close>

theorem Socket_emit_resets_staging_witness:
  "s_rooms (Sockets (final (Socket_emit 2 ''x'' [VNum 1] staged1)) 2) = []
   \<and> s_flags (Sockets (final (Socket_emit 2 ''x'' [VNum 1] staged1)) 2) = no_flags
   \<and> s_id (Sockets (final (Socket_emit 2 ''x'' [VNum 1] staged1)) 2) = ''c1''"
proof -
  have h1: "''x'' \<notin> set Socket_events"
    by (simp add: Socket_events_def)
  have h2: "\<not> threw (Socket_emit 2 ''x'' [VNum 1] staged1)"
    by code_simp
  show ?thesis
    using Socket_emit_resets_staging [OF h1 h2]
    by (simp add: Let_def example_staged)
qed

text \<open>
  The claim as stated fails for a call that ends with an error: with the room \<open>r1\<close>
  staged, \<open>emit("x", cb)\<close> throws before the reset, and \<open>r1\<close> stays staged.
\<close>

theorem Socket_emit_resets_counterexample:
  "''x'' \<notin> set Socket_events \<and> threw (Socket_emit 2 ''x'' [VFunction 0] staged1)
   \<and> s_rooms (Sockets (final (Socket_emit 2 ''x'' [VFunction 0] staged1)) 2) = [''r1'']"
  by code_simp


text \<open>
  C8 (code bug). The failing input: the parent of \<open>parent_world\<close>, with the room \<open>r1\<close>
  staged and the children \<open>/a\<close> and \<open>/b\<close>, emits \<open>("x", 1)\<close>. \<open>nsp.rooms = this.rooms\<close> makes
  the child share the \<open>Set\<close> of the parent, and the \<open>this.rooms.clear()\<close> of the first
  child's emit empties that \<open>Set\<close>: the adapter of \<open>/a\<close> gets the room \<open>r1\<close>, the adapter
  of \<open>/b\<close> gets no room, that is, every socket of \<open>/b\<close>.
\<close>

theorem ParentNamespace_emit_rooms_lost:
  "p_name (Parents parent_world 1) = ''/_0''
   \<and> children (Parents parent_world 1) = [2, 3]
   \<and> Sets parent_world (p_rooms (Parents parent_world 1)) = [''r1'']
   \<and> outcome (ParentNamespace_emit 1 ''x'' [VNum 1] parent_world)
       = (None, trace parent_world @
           [Broadcast (n_adapter (Namespaces parent_world 2))
              \<lparr>p_type = EVENT, p_nsp = None, p_id = None,
               p_data = Some (VArray [VStr ''x'', VNum 1])\<rparr>
              \<lparr>b_except = None, b_rooms = [''r1''], b_flags = no_flags\<rparr>,
            Broadcast (n_adapter (Namespaces parent_world 3))
              \<lparr>p_type = EVENT, p_nsp = None, p_id = None,
               p_data = Some (VArray [VStr ''x'', VNum 1])\<rparr>
              \<lparr>b_except = None, b_rooms = [], b_flags = no_flags\<rparr>])"
  by code_simp

section \<open>The default namespace and the engine\<close>





lemma sd_log: "same_default w (log e w)"
  by (simp add: same_default_def log_def)









































section \<open>Claims about the life cycle of a Socket\<close>

lemma socketRooms_delAll: "socketRooms (delAll sid a) sid = []"
  by (simp add: socketRooms_def delAll_def map_get_list_def AList.delete_conv')


lemma view_frame:
  "view this (log e w) = view this w"
  "view this (w\<lparr>trace := t\<rparr>) = view this w"
  by (simp_all add: view_def log_def)




lemma Namespace_remove_frame:
  "Sockets (Namespace_remove n s w) = Sockets w"
  "Clients (Namespace_remove n s w) = Clients w"
  "Adapters (Namespace_remove n s w) = Adapters w"
  "trace (Namespace_remove n s w) = trace w"
  "n_name (Namespaces (Namespace_remove n s w) m) = n_name (Namespaces w m)"
  "n_connected (Namespaces (Namespace_remove n s w) m) = n_connected (Namespaces w m)"
  "n_ids (Namespaces (Namespace_remove n s w) m) = n_ids (Namespaces w m)"
  by (simp_all add: Namespace_remove_def Let_def)

lemma Namespace_remove_gone:
  "sid = s_id (Sockets w s)
   \<Longrightarrow> map_of (n_sockets (Namespaces (Namespace_remove n s w) n)) sid = None"
  by (simp add: Namespace_remove_def Let_def AList.delete_conv')

lemma Client_remove_frame:
  "Sockets (Client_remove c s w) = Sockets w"
  "Namespaces (Client_remove c s w) = Namespaces w"
  "Adapters (Client_remove c s w) = Adapters w"
  "trace (Client_remove c s w) = trace w"
  "c_conn (Clients (Client_remove c s w) d) = c_conn (Clients w d)"
  by (simp_all add: Client_remove_def Let_def split: option.splits)

lemma Client_remove_gone:
  "sid = s_id (Sockets w s)
   \<Longrightarrow> map_of (c_sockets (Clients (Client_remove c s w) c)) sid = None"
  by (simp add: Client_remove_def Let_def AList.delete_conv' split: option.splits)

lemma Client_remove_nsps:
  "map_of (c_sockets (Clients w c)) (s_id (Sockets w s)) = Some s
   \<Longrightarrow> key = n_name (Namespaces w (s_nsp (Sockets w s)))
   \<Longrightarrow> map_of (c_nsps (Clients (Client_remove c s w) c)) key = None"
  by (simp add: Client_remove_def Let_def AList.delete_conv')

lemma Socket_leaveAll_frame:
  "Sockets (Socket_leaveAll s w) = Sockets w"
  "Namespaces (Socket_leaveAll s w) = Namespaces w"
  "Clients (Socket_leaveAll s w) = Clients w"
  "trace (Socket_leaveAll s w) = trace w @
     [DelAll (s_adapter (Sockets w s)) (s_id (Sockets w s)) (view s w)]"
  "Adapters (Socket_leaveAll s w) = (Adapters w)
     (s_adapter (Sockets w s) := delAll (s_id (Sockets w s)) (Adapters w (s_adapter (Sockets w s))))"
  by (simp_all add: Socket_leaveAll_def Let_def log_def)

text \<open>What \<open>Socket.onclose\<close> does to a connected socket, field by field.\<close>

lemma Socket_onclose_connected:
  assumes "s_connected (Sockets w this)"
  shows "Sockets (Socket_onclose this reason w)
           = (Sockets w)(this := (Sockets w this)\<lparr>s_connected := False, s_disconnected := True\<rparr>)"
    and "trace (Socket_onclose this reason w) = trace w @
           [Emit (OnSocket this) ''disconnecting'' [VStr reason] (Some (view this w)),
            DelAll (s_adapter (Sockets w this)) (s_id (Sockets w this)) (view this w),
            Emit (OnSocket this) ''disconnect'' [VStr reason]
              (Some (view this (Socket_onclose this reason w)))]"
    and "Adapters (Socket_onclose this reason w) = (Adapters w)
           (s_adapter (Sockets w this) :=
              delAll (s_id (Sockets w this)) (Adapters w (s_adapter (Sockets w this))))"
    and "c_conn (Clients (Socket_onclose this reason w) c) = c_conn (Clients w c)"
    and "n_name (Namespaces (Socket_onclose this reason w) n) = n_name (Namespaces w n)"
    and "n_ids (Namespaces (Socket_onclose this reason w) n) = n_ids (Namespaces w n)"
    and "map_of (n_sockets (Namespaces (Socket_onclose this reason w) (s_nsp (Sockets w this))))
           (s_id (Sockets w this)) = None"
    and "map_of (n_connected (Namespaces (Socket_onclose this reason w) (s_nsp (Sockets w this))))
           (s_id (Sockets w this)) = None"
    and "map_of (c_sockets (Clients (Socket_onclose this reason w) (s_client (Sockets w this))))
           (s_id (Sockets w this)) = None"
    and "map_of (c_sockets (Clients w (s_client (Sockets w this)))) (s_id (Sockets w this)) = Some this
         \<Longrightarrow> map_of (c_nsps (Clients (Socket_onclose this reason w) (s_client (Sockets w this))))
               (n_name (Namespaces w (s_nsp (Sockets w this)))) = None"
proof -
  define w1 where "w1 = log (Emit (OnSocket this) ''disconnecting'' [VStr reason]
      (Some (view this w))) w"
  define w6 where "w6 =
      (let w = Socket_leaveAll this w1;
           w = Namespace_remove (s_nsp (Sockets w this)) this w;
           w = Client_remove (s_client (Sockets w this)) this w;
           w = w\<lparr>Sockets := (Sockets w)
                 (this := (Sockets w this)\<lparr>s_connected := False, s_disconnected := True\<rparr>)\<rparr>;
           nsp = s_nsp (Sockets w this)
       in w\<lparr>Namespaces := (Namespaces w)
             (nsp := (Namespaces w nsp)
                \<lparr>n_connected := AList.delete (s_id (Sockets w this))
                   (n_connected (Namespaces w nsp))\<rparr>)\<rparr>)"
  have eq: "Socket_onclose this reason w
      = log (Emit (OnSocket this) ''disconnect'' [VStr reason] (Some (view this w6))) w6"
    using assms
    by (simp add: Socket_onclose_def EventEmitter_emit_def Let_def w1_def w6_def)
  have same: "view this (Socket_onclose this reason w) = view this w6"
    by (simp add: eq view_frame)
  have f1: "Sockets w1 = Sockets w" "Namespaces w1 = Namespaces w" "Clients w1 = Clients w"
    "Adapters w1 = Adapters w" "trace w1 = trace w @
       [Emit (OnSocket this) ''disconnecting'' [VStr reason] (Some (view this w))]"
    "view this w1 = view this w"
    by (simp_all add: w1_def log_def view_frame [unfolded log_def])
  show "Sockets (Socket_onclose this reason w)
           = (Sockets w)(this := (Sockets w this)\<lparr>s_connected := False, s_disconnected := True\<rparr>)"
    and "Adapters (Socket_onclose this reason w) = (Adapters w)
           (s_adapter (Sockets w this) :=
              delAll (s_id (Sockets w this)) (Adapters w (s_adapter (Sockets w this))))"
    and "c_conn (Clients (Socket_onclose this reason w) c) = c_conn (Clients w c)"
    and "n_name (Namespaces (Socket_onclose this reason w) n) = n_name (Namespaces w n)"
    and "n_ids (Namespaces (Socket_onclose this reason w) n) = n_ids (Namespaces w n)"
    and "map_of (n_sockets (Namespaces (Socket_onclose this reason w) (s_nsp (Sockets w this))))
           (s_id (Sockets w this)) = None"
    and "map_of (n_connected (Namespaces (Socket_onclose this reason w) (s_nsp (Sockets w this))))
           (s_id (Sockets w this)) = None"
    and "map_of (c_sockets (Clients (Socket_onclose this reason w) (s_client (Sockets w this))))
           (s_id (Sockets w this)) = None"
    and "map_of (c_sockets (Clients w (s_client (Sockets w this)))) (s_id (Sockets w this)) = Some this
         \<Longrightarrow> map_of (c_nsps (Clients (Socket_onclose this reason w) (s_client (Sockets w this))))
               (n_name (Namespaces w (s_nsp (Sockets w this)))) = None"
    by (simp_all add: eq w6_def Let_def log_def f1
        Socket_leaveAll_frame Namespace_remove_frame Client_remove_frame
        Namespace_remove_gone Client_remove_gone Client_remove_nsps AList.delete_conv')
  have "trace w6 = trace w @
           [Emit (OnSocket this) ''disconnecting'' [VStr reason] (Some (view this w)),
            DelAll (s_adapter (Sockets w this)) (s_id (Sockets w this)) (view this w)]"
    by (simp add: w6_def Let_def f1
        Socket_leaveAll_frame Namespace_remove_frame Client_remove_frame)
  then show "trace (Socket_onclose this reason w) = trace w @
           [Emit (OnSocket this) ''disconnecting'' [VStr reason] (Some (view this w)),
            DelAll (s_adapter (Sockets w this)) (s_id (Sockets w this)) (view this w),
            Emit (OnSocket this) ''disconnect'' [VStr reason]
              (Some (view this (Socket_onclose this reason w)))]"
    by (simp add: same) (simp add: eq log_def)
qed

text \<open>
  C5. \<open>Socket.onclose(reason)\<close> changes nothing once \<open>connected\<close> is false. On a connected
  socket three calls leave the socket, in this order: the listeners of \<open>disconnecting\<close>,
  the adapter's \<open>delAll\<close>, the listeners of \<open>disconnect\<close>. The listeners of
  \<open>disconnecting\<close> and the adapter find the socket as it was before the call: connected,
  in its rooms, in its namespace and in its client. The listeners of \<open>disconnect\<close> find
  it as it is at the end: in no room, neither in \<open>sockets\<close> nor in \<open>connected\<close> of its
  namespace nor in \<open>sockets\<close> of its client (nor, when the client held it, in \<open>nsps\<close> of
  its client), \<open>connected\<close> false and \<open>disconnected\<close> true. So the rooms are left after
  \<open>disconnecting\<close>, the removals and the flags come after the rooms are left and before
  \<open>disconnect\<close>, and a further \<open>onclose\<close> changes nothing. A socket is constructed with
  \<open>connected\<close> true and \<open>disconnected\<close> false.
\<close>

theorem Socket_onclose_once:
  "(\<not> s_connected (Sockets w this) \<longrightarrow> Socket_onclose this reason w = w)
   \<and> (s_connected (Sockets w this) \<longrightarrow>
        (let s = Sockets w this;
             w' = Socket_onclose this reason w;
             before = view this w;
             after = view this w'
         in trace w' = trace w @
              [Emit (OnSocket this) ''disconnecting'' [VStr reason] (Some before),
               DelAll (s_adapter s) (s_id s) before,
               Emit (OnSocket this) ''disconnect'' [VStr reason] (Some after)]
            \<and> v_connected before \<and> v_rooms before = Socket_rooms this w
            \<and> v_nsp_sockets before = (map_of (n_sockets (Namespaces w (s_nsp s))) (s_id s) = Some this)
            \<and> v_nsp_connected before
                = (map_of (n_connected (Namespaces w (s_nsp s))) (s_id s) = Some this)
            \<and> v_client_sockets before
                = (map_of (c_sockets (Clients w (s_client s))) (s_id s) = Some this)
            \<and> \<not> v_connected after \<and> v_disconnected after \<and> v_rooms after = []
            \<and> \<not> v_nsp_sockets after \<and> \<not> v_nsp_connected after \<and> \<not> v_client_sockets after
            \<and> (map_of (c_sockets (Clients w (s_client s))) (s_id s) = Some this
                 \<longrightarrow> \<not> v_client_nsps after)
            \<and> Socket_rooms this
                 (final (EventEmitter_emit (OnSocket this) ''disconnecting'' [VStr reason] w))
                = Socket_rooms this w
            \<and> Socket_rooms this w' = []
            \<and> map_of (n_sockets (Namespaces w' (s_nsp s))) (s_id s) = None
            \<and> map_of (n_connected (Namespaces w' (s_nsp s))) (s_id s) = None
            \<and> map_of (c_sockets (Clients w' (s_client s))) (s_id s) = None
            \<and> (map_of (c_sockets (Clients w (s_client s))) (s_id s) = Some this
                 \<longrightarrow> map_of (c_nsps (Clients w' (s_client s))) (n_name (Namespaces w (s_nsp s))) = None)
            \<and> \<not> s_connected (Sockets w' this) \<and> s_disconnected (Sockets w' this)
            \<and> Socket_onclose this reason' w' = w'))
   \<and> s_connected (new_Socket nsp client q w) \<and> \<not> s_disconnected (new_Socket nsp client q w)"
proof (intro conjI impI)
  show "\<not> s_connected (Sockets w this) \<Longrightarrow> Socket_onclose this reason w = w"
    by (simp add: Socket_onclose_def)
next
  assume c: "s_connected (Sockets w this)"
  define s where "s = Sockets w this"
  define w' where "w' = Socket_onclose this reason w"
  note facts = Socket_onclose_connected [OF c, of reason, folded w'_def s_def]
  have off: "\<not> s_connected (Sockets w' this)"
    by (simp add: facts(1))
  have again: "Socket_onclose this reason' w' = w'"
    using off by (simp add: Socket_onclose_def)
  have before: "v_connected (view this w)" "v_rooms (view this w) = Socket_rooms this w"
    "v_nsp_sockets (view this w) = (map_of (n_sockets (Namespaces w (s_nsp s))) (s_id s) = Some this)"
    "v_nsp_connected (view this w)
       = (map_of (n_connected (Namespaces w (s_nsp s))) (s_id s) = Some this)"
    "v_client_sockets (view this w)
       = (map_of (c_sockets (Clients w (s_client s))) (s_id s) = Some this)"
    using c by (simp_all add: view_def Let_def Socket_rooms_def s_def)
  have after: "\<not> v_connected (view this w')" "v_disconnected (view this w')"
    "v_rooms (view this w') = []"
    "\<not> v_nsp_sockets (view this w')" "\<not> v_nsp_connected (view this w')"
    "\<not> v_client_sockets (view this w')"
    by (simp_all add: view_def Let_def facts(1) facts(3) facts(7) facts(8) facts(9)
        s_def [symmetric] socketRooms_delAll)
  have nsps: "\<not> v_client_nsps (view this w')"
    if "map_of (c_sockets (Clients w (s_client s))) (s_id s) = Some this"
    using facts(10) [OF that]
    by (simp add: view_def Let_def facts(1) facts(5) s_def [symmetric])
  have rooms: "Socket_rooms this
        (final (EventEmitter_emit (OnSocket this) ''disconnecting'' [VStr reason] w))
      = Socket_rooms this w"
    "Socket_rooms this w' = []"
    by (simp_all add: Socket_rooms_def EventEmitter_emit_def log_def facts(1) facts(3)
        s_def [symmetric] socketRooms_delAll)
  show "let s = Sockets w this;
             w' = Socket_onclose this reason w;
             before = view this w;
             after = view this w'
         in trace w' = trace w @
              [Emit (OnSocket this) ''disconnecting'' [VStr reason] (Some before),
               DelAll (s_adapter s) (s_id s) before,
               Emit (OnSocket this) ''disconnect'' [VStr reason] (Some after)]
            \<and> v_connected before \<and> v_rooms before = Socket_rooms this w
            \<and> v_nsp_sockets before = (map_of (n_sockets (Namespaces w (s_nsp s))) (s_id s) = Some this)
            \<and> v_nsp_connected before
                = (map_of (n_connected (Namespaces w (s_nsp s))) (s_id s) = Some this)
            \<and> v_client_sockets before
                = (map_of (c_sockets (Clients w (s_client s))) (s_id s) = Some this)
            \<and> \<not> v_connected after \<and> v_disconnected after \<and> v_rooms after = []
            \<and> \<not> v_nsp_sockets after \<and> \<not> v_nsp_connected after \<and> \<not> v_client_sockets after
            \<and> (map_of (c_sockets (Clients w (s_client s))) (s_id s) = Some this
                 \<longrightarrow> \<not> v_client_nsps after)
            \<and> Socket_rooms this
                 (final (EventEmitter_emit (OnSocket this) ''disconnecting'' [VStr reason] w))
                = Socket_rooms this w
            \<and> Socket_rooms this w' = []
            \<and> map_of (n_sockets (Namespaces w' (s_nsp s))) (s_id s) = None
            \<and> map_of (n_connected (Namespaces w' (s_nsp s))) (s_id s) = None
            \<and> map_of (c_sockets (Clients w' (s_client s))) (s_id s) = None
            \<and> (map_of (c_sockets (Clients w (s_client s))) (s_id s) = Some this
                 \<longrightarrow> map_of (c_nsps (Clients w' (s_client s))) (n_name (Namespaces w (s_nsp s))) = None)
            \<and> \<not> s_connected (Sockets w' this) \<and> s_disconnected (Sockets w' this)
            \<and> Socket_onclose this reason' w' = w'"
    unfolding Let_def s_def [symmetric] w'_def [symmetric]
    using again before after nsps rooms facts(2) facts(7) facts(8) facts(9) facts(10)
    by (simp add: facts(1))
next
  show "s_connected (new_Socket nsp client q w)"
    by (simp add: new_Socket_def Let_def)
next
  show "\<not> s_disconnected (new_Socket nsp client q w)"
    by (simp add: new_Socket_def Let_def)
qed

text \<open>The claim on \<open>world1\<close>: the transport of \<open>c1\<close> closes.\<close>

theorem Socket_onclose_once_witness:
  "trace (Socket_onclose 2 ''transport close'' world1) = trace world1 @
     [Emit (OnSocket 2) ''disconnecting'' [VStr ''transport close'']
        (Some \<lparr>v_connected = True, v_disconnected = False, v_rooms = [''c1''],
               v_nsp_sockets = True, v_nsp_connected = True, v_client_sockets = True,
               v_client_nsps = True\<rparr>),
      DelAll 0 ''c1''
        \<lparr>v_connected = True, v_disconnected = False, v_rooms = [''c1''],
         v_nsp_sockets = True, v_nsp_connected = True, v_client_sockets = True,
         v_client_nsps = True\<rparr>,
      Emit (OnSocket 2) ''disconnect'' [VStr ''transport close'']
        (Some (view 2 (Socket_onclose 2 ''transport close'' world1)))]
   \<and> \<not> v_connected (view 2 (Socket_onclose 2 ''transport close'' world1))
   \<and> v_rooms (view 2 (Socket_onclose 2 ''transport close'' world1)) = []
   \<and> \<not> v_nsp_connected (view 2 (Socket_onclose 2 ''transport close'' world1))
   \<and> \<not> v_client_sockets (view 2 (Socket_onclose 2 ''transport close'' world1))
   \<and> Socket_rooms 2 (Socket_onclose 2 ''transport close'' world1) = []
   \<and> \<not> s_connected (Sockets (Socket_onclose 2 ''transport close'' world1) 2)
   \<and> s_disconnected (Sockets (Socket_onclose 2 ''transport close'' world1) 2)"
proof -
  have before: "view 2 world1 =
      \<lparr>v_connected = True, v_disconnected = False, v_rooms = [''c1''],
       v_nsp_sockets = True, v_nsp_connected = True, v_client_sockets = True,
       v_client_nsps = True\<rparr>"
    by code_simp
  show ?thesis
    using Socket_onclose_once [where this = 2 and w = world1 and reason = "''transport close''"]
    by (simp add: Let_def example_socket before)
qed

lemma Socket_disconnect_False:
  "Sockets (Socket_disconnect this False w) =
     (if s_connected (Sockets w this)
      then (Sockets w)(this := (Sockets w this)\<lparr>s_connected := False, s_disconnected := True\<rparr>)
      else Sockets w)"
  "c_conn (Clients (Socket_disconnect this False w) c) = c_conn (Clients w c)"
  "n_name (Namespaces (Socket_disconnect this False w) n) = n_name (Namespaces w n)"
proof -
  define w0 where "w0 = Socket_packet this
      \<lparr>p_type = DISCONNECT, p_nsp = None, p_id = None, p_data = None\<rparr> no_opts w"
  have fr: "Sockets w0 = Sockets w" "Clients w0 = Clients w" "Namespaces w0 = Namespaces w"
    by (simp_all add: w0_def Socket_packet_frame)
  have eq: "Socket_disconnect this False w =
      (if s_connected (Sockets w this) then Socket_onclose this ''server namespace disconnect'' w0
       else w)"
    by (simp add: Socket_disconnect_def w0_def)
  show "Sockets (Socket_disconnect this False w) =
     (if s_connected (Sockets w this)
      then (Sockets w)(this := (Sockets w this)\<lparr>s_connected := False, s_disconnected := True\<rparr>)
      else Sockets w)"
    using Socket_onclose_connected(1) [of w0 this] by (simp add: eq fr)
  show "c_conn (Clients (Socket_disconnect this False w) c) = c_conn (Clients w c)"
    using Socket_onclose_connected(4) [of w0 this] by (simp add: eq fr)
  show "n_name (Namespaces (Socket_disconnect this False w) n) = n_name (Namespaces w n)"
    using Socket_onclose_connected(5) [of w0 this] by (simp add: eq fr)
qed

text \<open>
  C9 (as amended). After \<open>s.disconnect()\<close> the socket is not connected, and \<open>emit\<close> does not
  look at that: a later \<open>s.emit\<close> of a non-reserved event (last argument not a function)
  returns normally and does what it does on a connected socket. With a room or the
  \<open>broadcast\<close> flag staged the adapter's \<open>broadcast\<close> is called. With nothing staged the
  packet goes to \<open>Client.packet\<close>: it is written to the transport when the connection is
  still open, which \<open>disconnect()\<close> without \<open>close\<close> does not change, and the call has no
  observable effect only when the connection is not open (or the packet is volatile and
  the transport not writable).
\<close>

theorem emit_after_disconnect:
  assumes "ev \<notin> set Socket_events" and "\<not> is_function (last (VStr ev # rest))"
  shows "let s = Sockets w this;
             conn = c_conn (Clients w (s_client s));
             packet = event_packet (s_flags s) (VStr ev # rest);
             w1 = Socket_disconnect this False w
         in \<not> s_connected (Sockets w1 this)
            \<and> c_conn (Clients w1 (s_client s)) = conn
            \<and> (\<exists>w2. Socket_emit this ev rest w1 = Inr w2
                 \<and> trace w2 = trace w1 @
                     (if s_rooms s \<noteq> [] \<or> truthy (f_broadcast (s_flags s)) then
                        [Broadcast (s_adapter s) packet
                           \<lparr>b_except = Some [s_id s], b_rooms = s_rooms s, b_flags = s_flags s\<rparr>]
                      else if readyState conn = rs_open
                              \<and> \<not> (truthy (f_volatile (s_flags s)) \<and> \<not> transport_writable conn)
                      then [Write (conn_id conn)
                              (packet\<lparr>p_nsp := Some (n_name (Namespaces w (s_nsp s)))\<rparr>)
                              None (Some (f_compress (s_flags s) \<noteq> Some False))]
                      else []))"
proof -
  define w1 where "w1 = Socket_disconnect this False w"
  have s1: "s_rooms (Sockets w1 this) = s_rooms (Sockets w this)"
    "s_flags (Sockets w1 this) = s_flags (Sockets w this)"
    "s_id (Sockets w1 this) = s_id (Sockets w this)"
    "s_adapter (Sockets w1 this) = s_adapter (Sockets w this)"
    "s_client (Sockets w1 this) = s_client (Sockets w this)"
    "s_nsp (Sockets w1 this) = s_nsp (Sockets w this)"
    "\<not> s_connected (Sockets w1 this)"
    by (simp_all add: w1_def Socket_disconnect_False(1))
  have c1: "c_conn (Clients w1 c) = c_conn (Clients w c)" for c
    by (simp add: w1_def Socket_disconnect_False(2))
  have n1: "n_name (Namespaces w1 n) = n_name (Namespaces w n)" for n
    by (simp add: w1_def Socket_disconnect_False(3))
  have "\<exists>w2. Socket_emit this ev rest w1 = Inr w2
          \<and> trace w2 = trace w1 @
              (if s_rooms (Sockets w this) \<noteq> [] \<or> truthy (f_broadcast (s_flags (Sockets w this)))
               then [Broadcast (s_adapter (Sockets w this))
                       (event_packet (s_flags (Sockets w this)) (VStr ev # rest))
                       \<lparr>b_except = Some [s_id (Sockets w this)], b_rooms = s_rooms (Sockets w this),
                        b_flags = s_flags (Sockets w this)\<rparr>]
               else if readyState (c_conn (Clients w (s_client (Sockets w this)))) = rs_open
                       \<and> \<not> (truthy (f_volatile (s_flags (Sockets w this)))
                              \<and> \<not> transport_writable (c_conn (Clients w (s_client (Sockets w this)))))
               then [Write (conn_id (c_conn (Clients w (s_client (Sockets w this)))))
                       ((event_packet (s_flags (Sockets w this)) (VStr ev # rest))
                          \<lparr>p_nsp := Some (n_name (Namespaces w (s_nsp (Sockets w this))))\<rparr>)
                       None (Some (f_compress (s_flags (Sockets w this)) \<noteq> Some False))]
               else [])"
    unfolding Socket_emit_plain [OF assms]
    by (auto simp add: Let_def Adapter_broadcast_def log_def Socket_packet_trace opts_of_flags_def
        s1 c1 n1)
  then show ?thesis
    using s1(7) c1 by (simp add: Let_def w1_def)
qed

text \<open>The amended claim on \<open>world1\<close>: \<open>socket.disconnect()\<close>, then \<open>socket.emit("x")\<close>.\<close>

theorem emit_after_disconnect_witness:
  "\<not> s_connected (Sockets (Socket_disconnect 2 False world1) 2)
   \<and> (\<exists>w2. Socket_emit 2 ''x'' [] (Socket_disconnect 2 False world1) = Inr w2
        \<and> trace w2 = trace (Socket_disconnect 2 False world1) @
            [Write ''c1'' ((event_packet no_flags [VStr ''x''])\<lparr>p_nsp := Some ''/''\<rparr>)
               None (Some True)])"
proof -
  have h1: "''x'' \<notin> set Socket_events"
    by (simp add: Socket_events_def)
  have h2: "\<not> is_function (last (VStr ''x'' # []))"
    by simp
  show ?thesis
    using emit_after_disconnect [OF h1 h2, where this = 2 and w = world1]
    by (simp add: Let_def example_socket example_client conn1_def no_flags_def)
qed

text \<open>
  The claim as stated fails while the connection is open: after \<open>socket.disconnect()\<close>,
  \<open>socket.emit("x")\<close> writes an \<open>EVENT\<close> packet to the transport.
\<close>

theorem emit_after_disconnect_counterexample:
  "''x'' \<notin> set Socket_events
   \<and> outcome (Socket_emit 2 ''x'' [] (Socket_disconnect 2 False world1))
       = (None, trace (Socket_disconnect 2 False world1) @
           [Write ''c1''
              \<lparr>p_type = EVENT, p_nsp = Some ''/'', p_id = None,
               p_data = Some (VArray [VStr ''x''])\<rparr>
              None (Some True)])"
  by code_simp

section \<open>Claims about connecting\<close>

lemma checkNamespace_run_none:
  "\<forall>(k, m, p) \<in> set ms. fst (m name q) \<or> \<not> snd (m name q)
   \<Longrightarrow> checkNamespace_run ms name q = None"
  by (induction ms) (auto split: prod.splits)

lemma checkNamespace_run_first:
  "\<forall>(k', m', p') \<in> set before. fst (m' name q) \<or> \<not> snd (m' name q)
   \<Longrightarrow> \<not> fst (m name q) \<Longrightarrow> snd (m name q)
   \<Longrightarrow> checkNamespace_run (before @ (k, m, p) # after) name q = Some p"
  by (induction before) (auto split: prod.splits)

lemma createChild_facts:
  "fst (ParentNamespace_createChild p name w) = fresh w"
  "map_of (nsps (server (snd (ParentNamespace_createChild p name w)))) name = Some (fresh w)"
  "n_name (Namespaces (snd (ParentNamespace_createChild p name w)) (fresh w)) = name"
  "n_fns (Namespaces (snd (ParentNamespace_createChild p name w)) (fresh w)) = p_fns (Parents w p)"
  "fresh w \<in> set (children (Parents (snd (ParentNamespace_createChild p name w)) p))"
  "Sockets (snd (ParentNamespace_createChild p name w)) = Sockets w"
  "nextTick (snd (ParentNamespace_createChild p name w)) = nextTick w"
  "Clients (snd (ParentNamespace_createChild p name w)) = Clients w"
  "trace (snd (ParentNamespace_createChild p name w)) = trace w"
  "fresh (snd (ParentNamespace_createChild p name w)) = fresh w + 1"
  by (simp_all add: ParentNamespace_createChild_def new_Namespace_def Let_def set_add_def
      AList.update_conv')

lemma Server_of_matcher_facts:
  "parentNsps (server (snd (Server_of_matcher key m fn w)))
     = AList.update key (m, fresh w) (parentNsps (server w))"
  "fresh (snd (Server_of_matcher key m fn w)) = fresh w + 1"
  by (simp_all add: Server_of_matcher_def Let_def)

lemma Server_of_frame:
  "Clients (snd (Server_of name None w)) = Clients w"
  "Sockets (snd (Server_of name None w)) = Sockets w"
  "nextTick (snd (Server_of name None w)) = nextTick w"
  "trace (snd (Server_of name None w)) = trace w"
  by (simp_all add: Server_of_def new_Namespace_def Let_def split: option.splits prod.splits)

lemma Server_of_registered:
  "take 1 name = ''/'' \<Longrightarrow> map_of (nsps (server w)) name = Some nsp
   \<Longrightarrow> Server_of name None w = (nsp, w)"
  by (cases name) (simp_all add: Server_of_def)

lemma Namespace_add_frame:
  "Sockets (snd (Namespace_add n c q w)) = (Sockets w)(fresh w := new_Socket n c q w)"
  "server (snd (Namespace_add n c q w)) = server w"
  "Clients (snd (Namespace_add n c q w)) = Clients w"
  "trace (snd (Namespace_add n c q w)) = trace w"
  "nextTick (snd (Namespace_add n c q w)) = nextTick w @
     [Added n (fresh w) c (Namespace_run (n_fns (Namespaces w n)) (new_Socket n c q w))]"
  by (simp_all add: Namespace_add_def Let_def)

lemma Client_doConnect_buffers:
  assumes "name \<noteq> ''/''" and "map_of (c_nsps (Clients w this)) ''/'' = None"
  shows "connectBuffer (Clients (Client_doConnect this name q w) this)
           = connectBuffer (Clients w this) @ [name]"
    and "Sockets (Client_doConnect this name q w) = Sockets w"
    and "nextTick (Client_doConnect this name q w) = nextTick w"
    and "trace (Client_doConnect this name q w) = trace w"
proof -
  obtain nsp w1 where o: "Server_of name None w = (nsp, w1)"
    by (cases "Server_of name None w")
  have fr: "Clients w1 = Clients w" "Sockets w1 = Sockets w" "nextTick w1 = nextTick w"
    "trace w1 = trace w"
    using Server_of_frame [of name w] by (simp_all add: o)
  have eq: "Client_doConnect this name q w =
      w1\<lparr>Clients := (Clients w1)
           (this := (Clients w1 this)\<lparr>connectBuffer := connectBuffer (Clients w1 this) @ [name]\<rparr>)\<rparr>"
    using assms by (auto simp add: Client_doConnect_def o fr)
  show "connectBuffer (Clients (Client_doConnect this name q w) this)
           = connectBuffer (Clients w this) @ [name]"
    and "Sockets (Client_doConnect this name q w) = Sockets w"
    and "nextTick (Client_doConnect this name q w) = nextTick w"
    and "trace (Client_doConnect this name q w) = trace w"
    by (simp_all add: eq fr)
qed

text \<open>
  C2. Let a CONNECT name a namespace that has no entry in \<open>server.nsps\<close>, on an open
  connection. If the matchers registered before some matcher all refuse (an error, or
  \<open>allow\<close> false) and that matcher accepts, its parent creates the child namespace of that
  name (registered in \<open>server.nsps\<close> and among the children of the parent), and the connect
  goes on with \<open>doConnect\<close> on the namespace that \<open>server.of(name)\<close> returns, which is the
  child when the name begins with \<open>/\<close>: a socket of this client on that namespace is
  constructed and its approval is scheduled after the continuations already waiting; or,
  when the name is not \<open>/\<close> and the client has no socket on \<open>/\<close> yet, the name is appended
  to \<open>connectBuffer\<close>. If every registered matcher refuses, or none is registered,
  \<open>Client.packet\<close> is called once, with the ERROR packet \<open>{nsp: name, data: "Invalid
  namespace"}\<close>, which is the one write to the connection; no socket is constructed and
  nothing is scheduled.
\<close>

theorem Client_connect_unknown_namespace:
  assumes "map_of (nsps (server w)) name = None"
    and "readyState (c_conn (Clients w this)) = rs_open"
  shows "(\<forall>before k m p after.
            parentNsps (server w) = before @ (k, m, p) # after
            \<and> (\<forall>(k', m', p') \<in> set before. fst (m' name q) \<or> \<not> snd (m' name q))
            \<and> \<not> fst (m name q) \<and> snd (m name q)
            \<longrightarrow> (let child = fst (ParentNamespace_createChild p name w);
                     w1 = snd (ParentNamespace_createChild p name w);
                     nsp = fst (Server_of name None w1);
                     w2 = snd (Server_of name None w1);
                     socket = fresh w2;
                     w' = Client_connect this name q w
                 in w' = Client_doConnect this name q w1
                    \<and> map_of (nsps (server w1)) name = Some child
                    \<and> n_name (Namespaces w1 child) = name
                    \<and> child \<in> set (children (Parents w1 p))
                    \<and> (take 1 name = ''/'' \<longrightarrow> nsp = child \<and> w2 = w1)
                    \<and> trace w' = trace w
                    \<and> (if name \<noteq> ''/'' \<and> map_of (c_nsps (Clients w this)) ''/'' = None then
                         connectBuffer (Clients w' this) = connectBuffer (Clients w this) @ [name]
                         \<and> Sockets w' = Sockets w \<and> nextTick w' = nextTick w
                       else
                         Sockets w' = (Sockets w)(socket := new_Socket nsp this q w2)
                         \<and> s_nsp (Sockets w' socket) = nsp
                         \<and> s_client (Sockets w' socket) = this
                         \<and> nextTick w' = nextTick w @
                             [Added nsp socket this
                                (Namespace_run (n_fns (Namespaces w2 nsp)) (new_Socket nsp this q w2))]
                         \<and> connectBuffer (Clients w' this) = connectBuffer (Clients w this))))
       \<and> ((\<forall>(k, m, p) \<in> set (parentNsps (server w)). fst (m name q) \<or> \<not> snd (m name q))
            \<longrightarrow> (let error = \<lparr>p_type = ERROR, p_nsp = Some name, p_id = None,
                                p_data = Some (VStr ''Invalid namespace'')\<rparr>;
                     w' = Client_connect this name q w
                 in w' = Client_packet this error no_opts w
                    \<and> trace w' = trace w @ [Write (conn_id (c_conn (Clients w this))) error None None]
                    \<and> Sockets w' = Sockets w \<and> nextTick w' = nextTick w \<and> fresh w' = fresh w))"
proof (intro conjI allI impI)
  fix before k m p after
  assume a: "parentNsps (server w) = before @ (k, m, p) # after
            \<and> (\<forall>(k', m', p') \<in> set before. fst (m' name q) \<or> \<not> snd (m' name q))
            \<and> \<not> fst (m name q) \<and> snd (m name q)"
  define child where "child = fst (ParentNamespace_createChild p name w)"
  define w1 where "w1 = snd (ParentNamespace_createChild p name w)"
  define nsp where "nsp = fst (Server_of name None w1)"
  define w2 where "w2 = snd (Server_of name None w1)"
  define w' where "w' = Client_connect this name q w"
  from a have run: "checkNamespace_run (parentNsps (server w)) name q = Some p"
    by (simp add: checkNamespace_run_first)
  have connect: "w' = Client_doConnect this name q w1"
    using assms(1) a run
    by (simp add: w'_def w1_def Client_connect_def Server_checkNamespace_def split: prod.splits)
  have made: "map_of (nsps (server w1)) name = Some child" "n_name (Namespaces w1 child) = name"
    "child \<in> set (children (Parents w1 p))"
    by (simp_all add: child_def w1_def createChild_facts)
  have f1: "Sockets w1 = Sockets w" "nextTick w1 = nextTick w" "Clients w1 = Clients w"
    "trace w1 = trace w"
    by (simp_all add: w1_def createChild_facts)
  have f2: "Sockets w2 = Sockets w" "nextTick w2 = nextTick w" "Clients w2 = Clients w"
    "trace w2 = trace w"
    by (simp_all add: w2_def Server_of_frame f1)
  have same: "nsp = child \<and> w2 = w1" if "take 1 name = ''/''"
    using Server_of_registered [OF that made(1)] by (simp add: nsp_def w2_def)
  have buffered: "connectBuffer (Clients w' this) = connectBuffer (Clients w this) @ [name]
      \<and> Sockets w' = Sockets w \<and> nextTick w' = nextTick w \<and> trace w' = trace w"
    if "name \<noteq> ''/''" and "map_of (c_nsps (Clients w this)) ''/'' = None"
    using Client_doConnect_buffers [of name w1 this q] that by (simp add: connect f1)
  have added: "Sockets w' = (Sockets w)(fresh w2 := new_Socket nsp this q w2)
      \<and> s_nsp (Sockets w' (fresh w2)) = nsp
      \<and> s_client (Sockets w' (fresh w2)) = this
      \<and> nextTick w' = nextTick w @
          [Added nsp (fresh w2) this
             (Namespace_run (n_fns (Namespaces w2 nsp)) (new_Socket nsp this q w2))]
      \<and> connectBuffer (Clients w' this) = connectBuffer (Clients w this)
      \<and> trace w' = trace w"
    if "\<not> (name \<noteq> ''/'' \<and> map_of (c_nsps (Clients w this)) ''/'' = None)"
  proof -
    have o: "Server_of name None w1 = (nsp, w2)"
      by (simp add: nsp_def w2_def)
    have "w' = snd (Namespace_add nsp this q w2)"
      using that by (auto simp add: connect Client_doConnect_def o f2)
    then show ?thesis
      by (simp add: Namespace_add_frame f2 new_Socket_def Let_def)
  qed
  show "let child = fst (ParentNamespace_createChild p name w);
                     w1 = snd (ParentNamespace_createChild p name w);
                     nsp = fst (Server_of name None w1);
                     w2 = snd (Server_of name None w1);
                     socket = fresh w2;
                     w' = Client_connect this name q w
                 in w' = Client_doConnect this name q w1
                    \<and> map_of (nsps (server w1)) name = Some child
                    \<and> n_name (Namespaces w1 child) = name
                    \<and> child \<in> set (children (Parents w1 p))
                    \<and> (take 1 name = ''/'' \<longrightarrow> nsp = child \<and> w2 = w1)
                    \<and> trace w' = trace w
                    \<and> (if name \<noteq> ''/'' \<and> map_of (c_nsps (Clients w this)) ''/'' = None then
                         connectBuffer (Clients w' this) = connectBuffer (Clients w this) @ [name]
                         \<and> Sockets w' = Sockets w \<and> nextTick w' = nextTick w
                       else
                         Sockets w' = (Sockets w)(socket := new_Socket nsp this q w2)
                         \<and> s_nsp (Sockets w' socket) = nsp
                         \<and> s_client (Sockets w' socket) = this
                         \<and> nextTick w' = nextTick w @
                             [Added nsp socket this
                                (Namespace_run (n_fns (Namespaces w2 nsp)) (new_Socket nsp this q w2))]
                         \<and> connectBuffer (Clients w' this) = connectBuffer (Clients w this))"
    unfolding Let_def child_def [symmetric] w1_def [symmetric] nsp_def [symmetric]
      w2_def [symmetric] w'_def [symmetric]
    using connect made same buffered added
    by (cases "name \<noteq> ''/'' \<and> map_of (c_nsps (Clients w this)) ''/'' = None")
       (simp_all add: new_Socket_def Let_def)
next
  assume "\<forall>(k, m, p) \<in> set (parentNsps (server w)). fst (m name q) \<or> \<not> snd (m name q)"
  then have run: "checkNamespace_run (parentNsps (server w)) name q = None"
    by (rule checkNamespace_run_none)
  have "Client_connect this name q w =
      Client_packet this \<lparr>p_type = ERROR, p_nsp = Some name, p_id = None,
                                p_data = Some (VStr ''Invalid namespace'')\<rparr> no_opts w"
    using assms(1) run by (simp add: Client_connect_def Server_checkNamespace_def)
  then show "let error = \<lparr>p_type = ERROR, p_nsp = Some name, p_id = None,
                                p_data = Some (VStr ''Invalid namespace'')\<rparr>;
                     w' = Client_connect this name q w
                 in w' = Client_packet this error no_opts w
                    \<and> trace w' = trace w @ [Write (conn_id (c_conn (Clients w this))) error None None]
                    \<and> Sockets w' = Sockets w \<and> nextTick w' = nextTick w \<and> fresh w' = fresh w"
    using assms(2) by (simp add: Let_def Client_packet_trace Client_packet_frame no_opts_def)
qed

text \<open>
  The claim on \<open>dynamic_ready\<close>, where the second matcher is the first to accept
  \<open>/room-42\<close> and the socket of \<open>c1\<close> on the child (at address 5) is constructed (at
  address 6) and scheduled; on \<open>dynamic_world\<close>, where \<open>c1\<close> has no socket on \<open>/\<close> and the
  name is buffered; and on \<open>world1\<close>, where no matcher is registered.
\<close>

theorem Client_connect_unknown_namespace_witness:
  "nextTick (Client_connect 1 ''/room-42'' (QObject []) dynamic_ready)
     = nextTick dynamic_ready @ [Added 5 6 1 None]
   \<and> s_nsp (Sockets (Client_connect 1 ''/room-42'' (QObject []) dynamic_ready) 6) = 5
   \<and> s_client (Sockets (Client_connect 1 ''/room-42'' (QObject []) dynamic_ready) 6) = 1
   \<and> map_of (nsps (server (snd (ParentNamespace_createChild 4 ''/room-42'' dynamic_ready))))
         ''/room-42'' = Some 5
   \<and> connectBuffer (Clients (Client_connect 3 ''/room-42'' (QObject []) dynamic_world) 3)
       = connectBuffer (Clients dynamic_world 3) @ [''/room-42'']
   \<and> nextTick (Client_connect 3 ''/room-42'' (QObject []) dynamic_world) = nextTick dynamic_world
   \<and> trace (Client_connect 1 ''/nope'' (QObject []) world1) = trace world1 @
       [Write ''c1'' \<lparr>p_type = ERROR, p_nsp = Some ''/nope'', p_id = None,
                       p_data = Some (VStr ''Invalid namespace'')\<rparr> None None]
   \<and> nextTick (Client_connect 1 ''/nope'' (QObject []) world1) = nextTick world1"
proof -
  have none1: "length (parentNsps (server world1)) = 0" and fresh1: "fresh world1 = 3"
    by code_simp+
  have r1: "map_of (nsps (server dynamic_ready)) ''/room-42'' = None"
    and r2: "readyState (c_conn (Clients dynamic_ready 1)) = rs_open"
    and r5: "fresh dynamic_ready = 5"
    and r6: "length (p_fns (Parents dynamic_ready 4)) = 0"
    and r7: "map_of (c_nsps (Clients dynamic_ready 1)) ''/'' = Some 2"
    by code_simp+
  have r3: "parentNsps (server dynamic_ready) = [(0, refuse_all, 3)] @ (1, rooms_only, 4) # []"
    using none1 by (simp add: dynamic_ready_def Server_of_matcher_facts fresh1)
  have r4: "(\<forall>(k', m', p') \<in> set [(0::nat, refuse_all, 3::nat)].
               fst (m' ''/room-42'' (QObject [])) \<or> \<not> snd (m' ''/room-42'' (QObject [])))
            \<and> \<not> fst (rooms_only ''/room-42'' (QObject []))
            \<and> snd (rooms_only ''/room-42'' (QObject []))"
    by (simp add: refuse_all_def rooms_only_def)
  have r6': "p_fns (Parents dynamic_ready 4) = []"
    using r6 by simp
  have r7': "map_of (c_nsps (Clients dynamic_ready (Suc 0))) ''/'' = Some 2"
    using r7 by simp
  have r8: "n_fns (Namespaces (snd (ParentNamespace_createChild 4 ''/room-42'' dynamic_ready)) 5)
      = []"
    using createChild_facts(4) [of 4 "''/room-42''" dynamic_ready] by (simp add: r5 r6')
  have none0: "length (parentNsps (server (new_Server blank))) = 0"
    and fresh0: "fresh (new_Server blank) = 1"
    by code_simp+
  have d1: "map_of (nsps (server dynamic_world)) ''/room-42'' = None"
    and d2: "readyState (c_conn (Clients dynamic_world 3)) = rs_open"
    and d5: "map_of (c_nsps (Clients dynamic_world 3)) ''/'' = None"
    by code_simp+
  have d3: "parentNsps (server dynamic_world) = [(0, refuse_all, 1)] @ (1, rooms_only, 2) # []"
    using none0 by (simp add: dynamic_world_def new_Client_def Server_of_matcher_facts fresh0)
  have d4: "(\<forall>(k', m', p') \<in> set [(0::nat, refuse_all, 1::nat)].
               fst (m' ''/room-42'' (QObject [])) \<or> \<not> snd (m' ''/room-42'' (QObject [])))
            \<and> \<not> fst (rooms_only ''/room-42'' (QObject []))
            \<and> snd (rooms_only ''/room-42'' (QObject []))"
    by (simp add: refuse_all_def rooms_only_def)
  have e1: "map_of (nsps (server world1)) ''/nope'' = None"
    and e2: "readyState (c_conn (Clients world1 1)) = rs_open"
    and e4: "conn_id (c_conn (Clients world1 1)) = ''c1''"
    by code_simp+
  have e5: "\<forall>(k, m, p) \<in> set (parentNsps (server world1)).
              fst (m ''/nope'' (QObject [])) \<or> \<not> snd (m ''/nope'' (QObject []))"
    using none1 by simp
  have e6: "conn_id (c_conn (Clients world1 (Suc 0))) = ''c1''"
    using e4 by simp
  show ?thesis
    using Client_connect_unknown_namespace [OF r1 r2, where q = "QObject []", THEN conjunct1,
        THEN spec, THEN spec, THEN spec, THEN spec, THEN spec, THEN mp, OF conjI [OF r3 r4]]
      Client_connect_unknown_namespace [OF d1 d2, where q = "QObject []", THEN conjunct1,
        THEN spec, THEN spec, THEN spec, THEN spec, THEN spec, THEN mp, OF conjI [OF d3 d4]]
      Client_connect_unknown_namespace [OF e1 e2, where q = "QObject []", THEN conjunct2,
        THEN mp, OF e5]
    by (auto simp add: Let_def e6 r5 r7' r8 d5 createChild_facts)
qed

lemma Client_connect_registered:
  assumes "take 1 name = ''/''" and "map_of (nsps (server w)) name = Some nsp"
    and "map_of (c_nsps (Clients w this)) ''/'' \<noteq> None"
  shows "Client_connect this name q w = snd (Namespace_add nsp this q w)"
  using assms by (auto simp add: Client_connect_def Client_doConnect_def Server_of_registered)

text \<open>
  The replay of a buffer whose names are registered and begin with \<open>/\<close>, for a client
  that has its socket on \<open>/\<close>: one continuation per name is scheduled, in the order of
  the buffer, for the namespace registered under the name.
\<close>

lemma connectBuffer_forEach_replay:
  assumes "\<forall>name \<in> set names. take 1 name = ''/'' \<and> map_of (nsps (server w)) name \<noteq> None"
    and "map_of (c_nsps (Clients w this)) ''/'' \<noteq> None"
  shows "map (\<lambda>t. (Some (task_nsp t), task_client t)) (nextTick (connectBuffer_forEach this names i w))
           = map (\<lambda>t. (Some (task_nsp t), task_client t)) (nextTick w)
             @ map (\<lambda>name. (map_of (nsps (server w)) name, this)) names
         \<and> server (connectBuffer_forEach this names i w) = server w
         \<and> Clients (connectBuffer_forEach this names i w) = Clients w
         \<and> trace (connectBuffer_forEach this names i w) = trace w"
  using assms
proof (induction names arbitrary: i w)
  case Nil
  then show ?case by simp
next
  case (Cons name names)
  from Cons.prems(1) obtain nsp where reg: "map_of (nsps (server w)) name = Some nsp"
    and abs: "take 1 name = ''/''"
    by auto
  define w1 where "w1 = Client_connect this name (QIndex i) w"
  have w1: "w1 = snd (Namespace_add nsp this (QIndex i) w)"
    unfolding w1_def using abs reg Cons.prems(2) by (rule Client_connect_registered)
  have fr: "server w1 = server w" "Clients w1 = Clients w" "trace w1 = trace w"
    by (simp_all add: w1 Namespace_add_frame)
  have p1: "\<forall>name \<in> set names. take 1 name = ''/'' \<and> map_of (nsps (server w1)) name \<noteq> None"
    using Cons.prems(1) by (simp add: fr)
  have p2: "map_of (c_nsps (Clients w1 this)) ''/'' \<noteq> None"
    using Cons.prems(2) by (simp add: fr)
  show ?case
    using Cons.IH [OF p1 p2, of "i + 1"]
    by (simp add: w1_def [symmetric] fr) (simp add: w1 Namespace_add_frame reg)
qed

lemma Socket_join_frame:
  "server (Socket_join s rooms w) = server w"
  "Clients (Socket_join s rooms w) = Clients w"
  "Sockets (Socket_join s rooms w) = Sockets w"
  "Namespaces (Socket_join s rooms w) = Namespaces w"
  "nextTick (Socket_join s rooms w) = nextTick w"
  by (simp_all add: Socket_join_def Let_def log_def)

lemma Socket_onconnect_frame:
  "server (Socket_onconnect s w) = server w"
  "Clients (Socket_onconnect s w) = Clients w"
  "Sockets (Socket_onconnect s w) = Sockets w"
  "nextTick (Socket_onconnect s w) = nextTick w"
  "n_name (Namespaces (Socket_onconnect s w) n) = n_name (Namespaces w n)"
  by (simp_all add: Socket_onconnect_def Let_def Socket_join_frame Socket_packet_frame)

lemma Socket_error_frame:
  "Clients (Socket_error s msg w) = Clients w"
  "nextTick (Socket_error s msg w) = nextTick w"
  by (simp_all add: Socket_error_def Socket_packet_frame)

lemma run_task_no_replay:
  assumes "err \<noteq> None \<or> readyState (c_conn (Clients w client)) \<noteq> rs_open
           \<or> n_name (Namespaces w nsp) \<noteq> ''/''"
  shows "nextTick (run_task (Added nsp socket client err) w) = nextTick w"
    and "connectBuffer (Clients (run_task (Added nsp socket client err) w) c)
           = connectBuffer (Clients w c)"
  using assms
  by (auto simp add: Let_def Socket_error_frame Socket_onconnect_frame Client_doConnect_fn_def
      EventEmitter_emit_def log_def split: option.splits)

lemma run_task_replay:
  assumes "readyState (c_conn (Clients w client)) = rs_open"
    and "n_name (Namespaces w nsp) = ''/''"
  shows "connectBuffer (Clients (run_task (Added nsp socket client None) w) client) = []"
    and "(\<forall>name \<in> set (connectBuffer (Clients w client)).
            take 1 name = ''/'' \<and> map_of (nsps (server w)) name \<noteq> None)
         \<Longrightarrow> map (\<lambda>t. (Some (task_nsp t), task_client t))
               (nextTick (run_task (Added nsp socket client None) w))
             = map (\<lambda>t. (Some (task_nsp t), task_client t)) (nextTick w)
               @ map (\<lambda>name. (map_of (nsps (server w)) name, client))
                   (connectBuffer (Clients w client))
             \<and> (\<forall>c. c \<noteq> client
                  \<longrightarrow> connectBuffer (Clients (run_task (Added nsp socket client None) w) c)
                      = connectBuffer (Clients w c))"
proof -
  define w1 where "w1 = Socket_onconnect socket
      (w\<lparr>Namespaces := (Namespaces w)
           (nsp := (Namespaces w nsp)
              \<lparr>n_sockets := AList.update (s_id (Sockets w socket)) socket
                 (n_sockets (Namespaces w nsp))\<rparr>)\<rparr>)"
  define w2 where "w2 = w1\<lparr>Clients := (Clients w1)
      (client := (Clients w1 client)
         \<lparr>c_sockets := AList.update (s_id (Sockets w1 socket)) socket (c_sockets (Clients w1 client)),
          c_nsps := AList.update (n_name (Namespaces w1 nsp)) socket (c_nsps (Clients w1 client))\<rparr>)\<rparr>"
  have f1: "server w1 = server w" "Clients w1 = Clients w" "nextTick w1 = nextTick w"
    "n_name (Namespaces w1 nsp) = ''/''"
    using assms(2) by (simp_all add: w1_def Socket_onconnect_frame)
  have f2: "server w2 = server w" "nextTick w2 = nextTick w"
    "connectBuffer (Clients w2 client) = connectBuffer (Clients w client)"
    "map_of (c_nsps (Clients w2 client)) ''/'' \<noteq> None"
    "n_name (Namespaces w2 nsp) = ''/''"
    by (simp_all add: w2_def f1 AList.update_conv')
  have others: "c \<noteq> client \<Longrightarrow> Clients w2 c = Clients w c" for c
    by (simp add: w2_def f1)
  have fn: "Client_doConnect_fn client socket nsp w1 =
      (if 0 < length (connectBuffer (Clients w client)) then
         (connectBuffer_forEach client (connectBuffer (Clients w client)) 0 w2)
           \<lparr>Clients := (Clients (connectBuffer_forEach client (connectBuffer (Clients w client)) 0 w2))
              (client := (Clients (connectBuffer_forEach client (connectBuffer (Clients w client)) 0 w2)
                 client)\<lparr>connectBuffer := []\<rparr>)\<rparr>
       else w2)"
    unfolding Client_doConnect_fn_def Let_def w2_def [symmetric]
    by (simp add: f2(3,5))
  have run: "run_task (Added nsp socket client None) w =
      final (EventEmitter_emit (OnNamespace nsp) ''connection'' [VSocket socket]
        (final (EventEmitter_emit (OnNamespace nsp) ''connect'' [VSocket socket]
           (Client_doConnect_fn client socket nsp w1))))"
    using assms(1) by (simp add: Let_def w1_def)
  show "connectBuffer (Clients (run_task (Added nsp socket client None) w) client) = []"
    using f2(3) by (simp add: run fn EventEmitter_emit_def log_def del: run_task.simps)
  assume names: "\<forall>name \<in> set (connectBuffer (Clients w client)).
            take 1 name = ''/'' \<and> map_of (nsps (server w)) name \<noteq> None"
  then have names2: "\<forall>name \<in> set (connectBuffer (Clients w client)).
            take 1 name = ''/'' \<and> map_of (nsps (server w2)) name \<noteq> None"
    by (simp add: f2)
  show "map (\<lambda>t. (Some (task_nsp t), task_client t))
               (nextTick (run_task (Added nsp socket client None) w))
             = map (\<lambda>t. (Some (task_nsp t), task_client t)) (nextTick w)
               @ map (\<lambda>name. (map_of (nsps (server w)) name, client))
                   (connectBuffer (Clients w client))
             \<and> (\<forall>c. c \<noteq> client
                  \<longrightarrow> connectBuffer (Clients (run_task (Added nsp socket client None) w) c)
                      = connectBuffer (Clients w c))"
    using connectBuffer_forEach_replay [OF names2 f2(4), of 0]
    by (simp add: run fn EventEmitter_emit_def log_def f2 others del: run_task.simps)
qed

text \<open>
  C6 (as amended). A connect of a client that reaches \<open>doConnect\<close> (the name is registered
  in \<open>server.nsps\<close>, or a parent matcher has accepted it) for a name other than \<open>/\<close>, while
  the client has no socket on \<open>/\<close>, constructs no socket and schedules nothing: the name
  is appended to \<open>connectBuffer\<close>. A continuation of \<open>Namespace.add\<close> that does not approve
  a socket of the namespace \<open>/\<close> (middleware error, connection not open, or another
  namespace) leaves every buffer as it is and schedules nothing. The continuation that
  approves the socket of the client on \<open>/\<close> leaves the buffer of the client empty, and,
  the buffered names being registered names that begin with \<open>/\<close>, schedules after the
  continuations already waiting one continuation per buffered name, in the order of the
  buffer, for the namespace of that name and this client, and leaves the buffers of the
  other clients as they are.
\<close>

theorem connect_before_default_is_buffered:
  "(name \<noteq> ''/'' \<and> map_of (c_nsps (Clients w this)) ''/'' = None \<longrightarrow>
      (let w' = Client_doConnect this name q w
       in connectBuffer (Clients w' this) = connectBuffer (Clients w this) @ [name]
          \<and> Sockets w' = Sockets w \<and> nextTick w' = nextTick w \<and> trace w' = trace w)
      \<and> (map_of (nsps (server w)) name \<noteq> None
           \<longrightarrow> Client_connect this name q w = Client_doConnect this name q w))
   \<and> (err \<noteq> None \<or> readyState (c_conn (Clients w client)) \<noteq> rs_open
        \<or> n_name (Namespaces w nsp) \<noteq> ''/'' \<longrightarrow>
      (let w' = run_task (Added nsp socket client err) w
       in nextTick w' = nextTick w
          \<and> (\<forall>c. connectBuffer (Clients w' c) = connectBuffer (Clients w c))))
   \<and> (readyState (c_conn (Clients w client)) = rs_open \<and> n_name (Namespaces w nsp) = ''/'' \<longrightarrow>
      (let w' = run_task (Added nsp socket client None) w
       in connectBuffer (Clients w' client) = []
          \<and> ((\<forall>name \<in> set (connectBuffer (Clients w client)).
                 take 1 name = ''/'' \<and> map_of (nsps (server w)) name \<noteq> None)
              \<longrightarrow> map (\<lambda>t. (Some (task_nsp t), task_client t)) (nextTick w')
                    = map (\<lambda>t. (Some (task_nsp t), task_client t)) (nextTick w)
                      @ map (\<lambda>name. (map_of (nsps (server w)) name, client))
                          (connectBuffer (Clients w client))
                  \<and> (\<forall>c. c \<noteq> client
                       \<longrightarrow> connectBuffer (Clients w' c) = connectBuffer (Clients w c)))))"
proof (intro conjI impI)
  assume a: "name \<noteq> ''/'' \<and> map_of (c_nsps (Clients w this)) ''/'' = None"
  then show "let w' = Client_doConnect this name q w
       in connectBuffer (Clients w' this) = connectBuffer (Clients w this) @ [name]
          \<and> Sockets w' = Sockets w \<and> nextTick w' = nextTick w \<and> trace w' = trace w"
    by (simp add: Let_def Client_doConnect_buffers)
next
  assume "map_of (nsps (server w)) name \<noteq> None"
  then show "Client_connect this name q w = Client_doConnect this name q w"
    by (simp add: Client_connect_def)
next
  assume "err \<noteq> None \<or> readyState (c_conn (Clients w client)) \<noteq> rs_open
        \<or> n_name (Namespaces w nsp) \<noteq> ''/''"
  then show "let w' = run_task (Added nsp socket client err) w
       in nextTick w' = nextTick w
          \<and> (\<forall>c. connectBuffer (Clients w' c) = connectBuffer (Clients w c))"
    using run_task_no_replay [of err w client nsp socket]
    by (simp add: Let_def del: run_task.simps)
next
  assume a: "readyState (c_conn (Clients w client)) = rs_open \<and> n_name (Namespaces w nsp) = ''/''"
  then show "let w' = run_task (Added nsp socket client None) w
       in connectBuffer (Clients w' client) = []
          \<and> ((\<forall>name \<in> set (connectBuffer (Clients w client)).
                 take 1 name = ''/'' \<and> map_of (nsps (server w)) name \<noteq> None)
              \<longrightarrow> map (\<lambda>t. (Some (task_nsp t), task_client t)) (nextTick w')
                    = map (\<lambda>t. (Some (task_nsp t), task_client t)) (nextTick w)
                      @ map (\<lambda>name. (map_of (nsps (server w)) name, client))
                          (connectBuffer (Clients w client))
                  \<and> (\<forall>c. c \<noteq> client
                       \<longrightarrow> connectBuffer (Clients w' c) = connectBuffer (Clients w c)))"
    using run_task_replay [of w client nsp socket]
    by (simp add: Let_def del: run_task.simps)
qed

text \<open>
  The amended claim on \<open>chat_registered\<close>, where the CONNECT for \<open>/chat\<close> is buffered, and
  on \<open>early_chat\<close>, where the approval of the socket on \<open>/\<close> replays it.
\<close>

theorem connect_before_default_is_buffered_witness:
  "connectBuffer (Clients (Client_doConnect 1 ''/chat'' (QObject []) chat_registered) 1) = [''/chat'']
   \<and> nextTick (Client_doConnect 1 ''/chat'' (QObject []) chat_registered) = nextTick chat_registered
   \<and> connectBuffer (Clients (run_task (Added 0 2 1 None) (early_chat\<lparr>nextTick := []\<rparr>)) 1) = []
   \<and> map (\<lambda>t. (Some (task_nsp t), task_client t))
        (nextTick (run_task (Added 0 2 1 None) (early_chat\<lparr>nextTick := []\<rparr>))) = [(Some 3, 1)]"
proof -
  have a: "''/chat'' \<noteq> ''/'' \<and> map_of (c_nsps (Clients chat_registered 1)) ''/'' = None"
    and b: "connectBuffer (Clients chat_registered 1) = []"
    by code_simp+
  have c: "readyState (c_conn (Clients (early_chat\<lparr>nextTick := []\<rparr>) 1)) = rs_open
           \<and> n_name (Namespaces (early_chat\<lparr>nextTick := []\<rparr>) 0) = ''/''"
    and d: "connectBuffer (Clients (early_chat\<lparr>nextTick := []\<rparr>) 1) = [''/chat'']"
    and e: "map_of (nsps (server (early_chat\<lparr>nextTick := []\<rparr>))) ''/chat'' = Some 3"
    by code_simp+
  have b': "connectBuffer (Clients chat_registered (Suc 0)) = []"
    using b by simp
  have d': "connectBuffer (Clients early_chat (Suc 0)) = [''/chat'']"
    using d by simp
  have e': "map_of (nsps (server early_chat)) ''/chat'' = Some 3"
    using e by simp
  show ?thesis
    using connect_before_default_is_buffered [where name = "''/chat''" and w = chat_registered
        and this = 1 and q = "QObject []" and nsp = 0 and client = 1 and err = None,
        THEN conjunct1, THEN mp, OF a, THEN conjunct1]
      connect_before_default_is_buffered [where w = "early_chat\<lparr>nextTick := []\<rparr>"
        and nsp = 0 and client = 1 and socket = 2 and name = "''/''" and this = 1,
        THEN conjunct2, THEN conjunct2, THEN mp, OF c]
    by (simp add: Let_def b' d' e' del: run_task.simps)
qed

text \<open>
  The claim as stated fails for a name that no namespace and no matcher answers for:
  before the socket of \<open>c1\<close> on \<open>/\<close> is approved, a CONNECT for \<open>/nope\<close> is not buffered;
  the ERROR packet is written at once.
\<close>

theorem connect_before_default_counterexample:
  "''/nope'' \<noteq> ''/'' \<and> map_of (c_nsps (Clients pending1 1)) ''/'' = None
   \<and> connectBuffer (Clients (Client_connect 1 ''/nope'' (QObject []) pending1) 1) = []
   \<and> trace (Client_connect 1 ''/nope'' (QObject []) pending1) =
       [Write ''c1'' \<lparr>p_type = ERROR, p_nsp = Some ''/nope'', p_id = None,
                       p_data = Some (VStr ''Invalid namespace'')\<rparr> None None]"
  by code_simp

end
